theory Spec2Isabelle
  imports Complex_Main "HOL-Library.Word" "HOL-Library.Log_Nat"
begin

section \<open>Go values used by package retry\<close>

text \<open>
  \<^verbatim>\<open>time.Duration\<close> is an \<^verbatim>\<open>int64\<close> count of nanoseconds and Go's \<^verbatim>\<open>int\<close> is
  64 bits wide on the platforms considered here: both are 64-bit words, read as two's
  complement (\<open>sint\<close>, \<open><s\<close>, \<open>\<le>s\<close>), whose \<open>+\<close> and \<open>*\<close> wrap around as Go's do.
\<close>

type_synonym Duration = "64 word"
type_synonym Go_int = "64 word"

subsection \<open>\<^verbatim>\<open>float64\<close>\<close>

text \<open>
  \<^verbatim>\<open>float64\<close> is the binary64 format of IEEE 754: numbers \<open>m * 2^e\<close> with
  \<open>\<bar>m\<bar> < 2^53\<close> and \<open>- 1074 \<le> e\<close>, of magnitude below \<open>2^1024\<close>, two infinities and NaN.
  An arithmetic operation or a conversion yields the exact result rounded to the nearest
  such number, a tie going to the one with an even \<open>m\<close>.

  \<open>round_half_even\<close> rounds a real number to the nearest integer in that way.
  \<open>binade x\<close> is the exponent of the leading bit of \<open>x > 0\<close>, that is the \<open>b\<close> with
  \<open>2^b \<le> x < 2^(b+1)\<close>, computed from the bit length of the integer part of \<open>x\<close> or of
  \<open>1 / x\<close>. \<open>ulp_exponent x\<close> is the exponent of the last of the 53 bits that are kept
  for \<open>x\<close>; it does not go below \<open>- 1074\<close>, the exponent of the subnormal numbers.
  \<open>nearest_float64 x\<close> is the number nearest to \<open>x\<close>, the exponent range taken as
  unbounded upwards.
\<close>

definition round_half_even :: "real \<Rightarrow> int" where
  "round_half_even t =
     (let f = \<lfloor>t\<rfloor>; r = t - of_int f
      in if r < 1 / 2 then f else if 1 / 2 < r then f + 1 else if even f then f else f + 1)"

definition binade :: "real \<Rightarrow> int" where
  "binade x = (if 1 \<le> x then bitlen \<lfloor>x\<rfloor> - 1 else - bitlen (\<lceil>1 / x\<rceil> - 1))"

definition ulp_exponent :: "real \<Rightarrow> int" where
  "ulp_exponent x = max (binade \<bar>x\<bar>) (- 1022) - 52"

definition nearest_float64 :: "real \<Rightarrow> real" where
  "nearest_float64 x =
     (if x = 0 then 0
      else of_int (round_half_even (x / 2 powi ulp_exponent x)) * 2 powi ulp_exponent x)"

text \<open>
  The values of \<^verbatim>\<open>float64\<close>. A finite value is given by the real number it denotes; the
  two zeros are not told apart (the program divides by no \<^verbatim>\<open>float64\<close> and does not
  inspect a sign, so the sign of a zero could show only through \<^verbatim>\<open>math.Pow\<close>, whose
  result is a parameter below). \<open>round64\<close> rounds an exact result: to the nearest number,
  or to an infinity when that number has a magnitude of \<open>2^1024\<close> or more.
\<close>

datatype float64 = Finite real | PosInf | NegInf | NaN

definition round64 :: "real \<Rightarrow> float64" where
  "round64 x =
     (let y = nearest_float64 x
      in if 2 ^ 1024 \<le> y then PosInf else if y \<le> - (2 ^ 1024) then NegInf else Finite y)"

text \<open>
  Go's operators \<^verbatim>\<open>-x\<close>, \<^verbatim>\<open>x + y\<close>, \<^verbatim>\<open>x - y\<close>, \<^verbatim>\<open>x * y\<close>, \<^verbatim>\<open>x < y\<close> and \<^verbatim>\<open>x <= y\<close> on
  \<^verbatim>\<open>float64\<close>, each operation rounding on its own, as on \<^verbatim>\<open>amd64\<close> by default (Go allows an
  implementation to fuse \<^verbatim>\<open>x*y + z\<close> into one rounding). A comparison
  with NaN is false.
\<close>

fun f64_neg :: "float64 \<Rightarrow> float64" where
  "f64_neg (Finite a) = Finite (- a)"
| "f64_neg PosInf = NegInf"
| "f64_neg NegInf = PosInf"
| "f64_neg NaN = NaN"

fun f64_add :: "float64 \<Rightarrow> float64 \<Rightarrow> float64" where
  "f64_add (Finite a) (Finite b) = round64 (a + b)"
| "f64_add NaN y = NaN"
| "f64_add x NaN = NaN"
| "f64_add PosInf NegInf = NaN"
| "f64_add NegInf PosInf = NaN"
| "f64_add PosInf y = PosInf"
| "f64_add NegInf y = NegInf"
| "f64_add x PosInf = PosInf"
| "f64_add x NegInf = NegInf"

definition f64_sub :: "float64 \<Rightarrow> float64 \<Rightarrow> float64" where
  "f64_sub x y = f64_add x (f64_neg y)"

fun f64_mul :: "float64 \<Rightarrow> float64 \<Rightarrow> float64" where
  "f64_mul (Finite a) (Finite b) = round64 (a * b)"
| "f64_mul NaN y = NaN"
| "f64_mul x NaN = NaN"
| "f64_mul PosInf (Finite b) = (if b = 0 then NaN else if 0 < b then PosInf else NegInf)"
| "f64_mul NegInf (Finite b) = (if b = 0 then NaN else if 0 < b then NegInf else PosInf)"
| "f64_mul (Finite a) PosInf = (if a = 0 then NaN else if 0 < a then PosInf else NegInf)"
| "f64_mul (Finite a) NegInf = (if a = 0 then NaN else if 0 < a then NegInf else PosInf)"
| "f64_mul PosInf PosInf = PosInf"
| "f64_mul PosInf NegInf = NegInf"
| "f64_mul NegInf PosInf = NegInf"
| "f64_mul NegInf NegInf = PosInf"

fun f64_less :: "float64 \<Rightarrow> float64 \<Rightarrow> bool" where
  "f64_less (Finite a) (Finite b) = (a < b)"
| "f64_less NaN y = False"
| "f64_less x NaN = False"
| "f64_less x NegInf = False"
| "f64_less PosInf y = False"
| "f64_less NegInf y = True"
| "f64_less x PosInf = True"

fun f64_le :: "float64 \<Rightarrow> float64 \<Rightarrow> bool" where
  "f64_le (Finite a) (Finite b) = (a \<le> b)"
| "f64_le NaN y = False"
| "f64_le x NaN = False"
| "f64_le NegInf y = True"
| "f64_le x PosInf = True"
| "f64_le x NegInf = False"
| "f64_le PosInf y = False"

text \<open>
  The conversions \<^verbatim>\<open>float64(d)\<close> of a duration and \<^verbatim>\<open>float64(attempt)\<close> of an \<^verbatim>\<open>int\<close>:
  the integer is rounded to the nearest \<^verbatim>\<open>float64\<close>, which changes it only above \<open>2^53\<close>
  in magnitude.
\<close>

definition float64_of_Duration :: "Duration \<Rightarrow> float64" where
  "float64_of_Duration d = round64 (real_of_int (sint d))"

definition float64_of_Go_int :: "Go_int \<Rightarrow> float64" where
  "float64_of_Go_int n = round64 (real_of_int (sint n))"

text \<open>
  The conversion \<^verbatim>\<open>time.Duration(x)\<close> of a \<^verbatim>\<open>float64\<close>: the fraction is discarded
  (truncation towards zero). When the truncated value does not fit \<^verbatim>\<open>int64\<close>, and for
  an infinity or NaN, the Go specification leaves the result to the implementation: the
  model returns \<open>None\<close> there.
\<close>

definition trunc_toward_zero :: "real \<Rightarrow> int" where
  "trunc_toward_zero x = (if 0 \<le> x then \<lfloor>x\<rfloor> else \<lceil>x\<rceil>)"

fun Duration_of_float64 :: "float64 \<Rightarrow> Duration option" where
  "Duration_of_float64 (Finite x) =
     (let t = trunc_toward_zero x
      in if - (2 ^ 63) \<le> t \<and> t < 2 ^ 63 then Some (word_of_int t) else None)"
| "Duration_of_float64 x = None"

section \<open>Backoff strategies (backoff.go)\<close>

record FixedBackoff =
  Interval :: Duration
  Jitter :: float64

record LinearBackoff =
  Base :: Duration
  Step :: Duration
  Max :: Duration
  Jitter :: float64

record ExponentialBackoff =
  Base :: Duration
  Factor :: float64
  Max :: Duration
  Jitter :: float64

text \<open>
  \<^verbatim>\<open>addJitter\<close>. The third argument \<open>u\<close> is the value that \<^verbatim>\<open>rand.Float64()\<close> draws,
  a \<^verbatim>\<open>float64\<close> of the half-open interval from 0 to 1; it is read only when jitter is
  enabled.
\<close>

definition addJitter :: "Duration \<Rightarrow> float64 \<Rightarrow> float64 \<Rightarrow> Duration option" where
  "addJitter d jitter u =
     (if f64_le jitter (Finite 0) \<or> f64_le (Finite 1) jitter then Some d
      else let delta = f64_mul (f64_sub (f64_mul u (Finite 2)) (Finite 1)) jitter
           in Duration_of_float64 (f64_mul (float64_of_Duration d) (f64_add (Finite 1) delta)))"

definition FixedBackoff_Next :: "FixedBackoff \<Rightarrow> Go_int \<Rightarrow> float64 \<Rightarrow> Duration option" where
  "FixedBackoff_Next f attempt u = addJitter (Interval f) (FixedBackoff.Jitter f) u"

definition LinearBackoff_Next :: "LinearBackoff \<Rightarrow> Go_int \<Rightarrow> float64 \<Rightarrow> Duration option" where
  "LinearBackoff_Next l attempt u =
     (let d = LinearBackoff.Base l + attempt * Step l
      in if 0 <s LinearBackoff.Max l \<and> LinearBackoff.Max l <s d
         then Some (LinearBackoff.Max l)
         else addJitter d (LinearBackoff.Jitter l) u)"

text \<open>
  \<^verbatim>\<open>ExponentialBackoff.Next\<close>. The function \<^verbatim>\<open>math.Pow\<close> belongs to Go's library, which
  computes it by its own sequence of rounded operations and special cases: it is the
  first argument here, so that what follows holds for whatever \<^verbatim>\<open>math.Pow\<close> returns.
\<close>

definition ExponentialBackoff_Next ::
  "(float64 \<Rightarrow> float64 \<Rightarrow> float64) \<Rightarrow> ExponentialBackoff \<Rightarrow> Go_int \<Rightarrow> float64
     \<Rightarrow> Duration option" where
  "ExponentialBackoff_Next math_Pow e attempt u =
     (let d = f64_mul (float64_of_Duration (ExponentialBackoff.Base e))
                (math_Pow (Factor e) (float64_of_Go_int attempt))
      in if 0 <s ExponentialBackoff.Max e
            \<and> f64_less (float64_of_Duration (ExponentialBackoff.Max e)) d
         then Some (ExponentialBackoff.Max e)
         else case Duration_of_float64 d of
                None \<Rightarrow> None
              | Some d' \<Rightarrow> addJitter d' (ExponentialBackoff.Jitter e) u)"

section \<open>Error values (the error part of the package, and Go's own errors)\<close>

text \<open>
  Go's \<^verbatim>\<open>error\<close> is an interface value that may be \<^verbatim>\<open>nil\<close>: it is modelled as
  \<open>error option\<close>, with \<open>None\<close> for \<^verbatim>\<open>nil\<close>. The non-nil values are the two errors of
  package \<^verbatim>\<open>context\<close>, an error of the caller given by its message, the package's
  \<^verbatim>\<open>*UnretryableError\<close> with its field \<^verbatim>\<open>err\<close>, and the \<^verbatim>\<open>*fmt.wrapError\<close> that
  \<^verbatim>\<open>fmt.Errorf\<close> builds for the verb \<^verbatim>\<open>%w\<close>, with its message and its wrapped error.
\<close>

datatype error =
    context_Canceled
  | context_DeadlineExceeded
  | errorString string
  | UnretryableError "error option"
  | wrapError string "error option"

text \<open>The method \<^verbatim>\<open>Error()\<close> of each value.\<close>

fun Error :: "error \<Rightarrow> string" where
  "Error context_Canceled = ''context canceled''"
| "Error context_DeadlineExceeded = ''context deadline exceeded''"
| "Error (errorString s) = s"
| "Error (UnretryableError None) = ''unretryable error: <nil>''"
| "Error (UnretryableError (Some e)) = ''unretryable error: '' @ Error e"
| "Error (wrapError msg e) = msg"

text \<open>\<^verbatim>\<open>errors.Unwrap\<close>: the method \<^verbatim>\<open>Unwrap\<close> where the value has one, \<^verbatim>\<open>nil\<close> otherwise.\<close>

fun errors_Unwrap :: "error option \<Rightarrow> error option" where
  "errors_Unwrap (Some (UnretryableError e)) = e"
| "errors_Unwrap (Some (wrapError msg e)) = e"
| "errors_Unwrap _ = None"

text \<open>
  \<^verbatim>\<open>errors.As\<close> with a target of type \<^verbatim>\<open>*UnretryableError\<close>: it follows the chain of
  \<^verbatim>\<open>Unwrap\<close> until a value of that type is found.
\<close>

fun errors_As_UnretryableError :: "error \<Rightarrow> bool" where
  "errors_As_UnretryableError (UnretryableError e) = True"
| "errors_As_UnretryableError (wrapError msg (Some e)) = errors_As_UnretryableError e"
| "errors_As_UnretryableError _ = False"

definition IsUnretryable :: "error option \<Rightarrow> bool" where
  "IsUnretryable err = (case err of None \<Rightarrow> False | Some e \<Rightarrow> errors_As_UnretryableError e)"

definition newUnretryableError :: "error option \<Rightarrow> error option" where
  "newUnretryableError err = (case err of None \<Rightarrow> None | Some e \<Rightarrow> Some (UnretryableError (Some e)))"

text \<open>
  \<^verbatim>\<open>errors.Is\<close>: the target is compared with every value of the chain of \<^verbatim>\<open>Unwrap\<close>.
\<close>

fun errors_Is_chain :: "error \<Rightarrow> error \<Rightarrow> bool" where
  "errors_Is_chain (UnretryableError (Some e)) target =
     (UnretryableError (Some e) = target \<or> errors_Is_chain e target)"
| "errors_Is_chain (wrapError msg (Some e)) target =
     (wrapError msg (Some e) = target \<or> errors_Is_chain e target)"
| "errors_Is_chain e target = (e = target)"

definition errors_Is :: "error option \<Rightarrow> error option \<Rightarrow> bool" where
  "errors_Is err target =
     (case (err, target) of
        (Some e, Some t) \<Rightarrow> errors_Is_chain e t
      | _ \<Rightarrow> err = target)"

text \<open>
  \<^verbatim>\<open>fmt.Errorf(prefix + "%w", err)\<close> of Go's standard library: a \<^verbatim>\<open>*fmt.wrapError\<close>
  whose message is the prefix followed by the operand's message, and whose \<^verbatim>\<open>Unwrap\<close>
  is the operand. A \<^verbatim>\<open>nil\<close> operand is printed as a bad verb and wrapped as \<^verbatim>\<open>nil\<close>.
\<close>

definition fmt_Errorf_w :: "string \<Rightarrow> error option \<Rightarrow> error" where
  "fmt_Errorf_w prefix err =
     wrapError (prefix @ (case err of None \<Rightarrow> ''%!w(<nil>)'' | Some e \<Rightarrow> Error e)) err"

section \<open>The retry loop (retry.go)\<close>

type_synonym AttemptFunc = "Go_int \<Rightarrow> error option"
type_synonym IsRetryableFunc = "error option \<Rightarrow> bool"
type_synonym Backoff = "Go_int \<Rightarrow> Duration"

text \<open>
  The operation \<^verbatim>\<open>AttemptFunc\<close> returns \<^verbatim>\<open>nil\<close> or an error for an attempt number. The
  loop counts upwards, so within one run the operation is called at most once for an
  attempt number (up to the wrap-around of the counter): whatever state the operation
  keeps, its outcomes in a run are a function of the attempt number. The same holds for
  \<^verbatim>\<open>Backoff.Next\<close> and its random draw.

  The struct \<^verbatim>\<open>retrier\<close>. The field \<^verbatim>\<open>backoff\<close> is the interface \<^verbatim>\<open>Backoff\<close>, that is
  its method \<^verbatim>\<open>Next\<close>, taken to be present (a \<^verbatim>\<open>nil\<close> interface would panic at the
  call). The field \<^verbatim>\<open>isRetryable\<close> is a function value that may be \<^verbatim>\<open>nil\<close>.
\<close>

record retrier =
  backoff :: Backoff
  maxAttempts :: Go_int
  isRetryable :: "IsRetryableFunc option"

text \<open>
  What the loop observes of its \<^verbatim>\<open>context.Context\<close>:
  \<^item> \<open>Err_before ctx attempt\<close>: the value of \<^verbatim>\<open>ctx.Err()\<close> at the top of the iteration;
  \<^item> \<open>Done_first ctx attempt d\<close>: whether the \<^verbatim>\<open>select\<close> after the attempt receives from
    \<^verbatim>\<open>ctx.Done()\<close> rather than from the timer \<^verbatim>\<open>time.After(d)\<close>;
  \<^item> \<open>Err_after_Done ctx attempt\<close>: the value of \<^verbatim>\<open>ctx.Err()\<close> read in that branch.
\<close>

record Context =
  Err_before :: "Go_int \<Rightarrow> error option"
  Done_first :: "Go_int \<Rightarrow> Duration \<Rightarrow> bool"
  Err_after_Done :: "Go_int \<Rightarrow> error option"

text \<open>The calls and waits of a run, in their order.\<close>

datatype event =
    CallAttempt Go_int
  | CallIsRetryable error
  | CallNext Go_int
  | Wait Duration

text \<open>The five \<^verbatim>\<open>return\<close> statements of \<^verbatim>\<open>retrier.Do\<close>, in the order of the source.\<close>

datatype exit =
    ReturnCtxErr
  | ReturnNil
  | ReturnUnretryable
  | ReturnCtxDone
  | ReturnAllAttemptsFailed

text \<open>The test \<^verbatim>\<open>r.isRetryable != nil && !r.isRetryable(err)\<close> and the call it makes.\<close>

definition notRetryable :: "retrier \<Rightarrow> error \<Rightarrow> bool" where
  "notRetryable r e = (case isRetryable r of None \<Rightarrow> False | Some p \<Rightarrow> \<not> p (Some e))"

definition isRetryable_calls :: "retrier \<Rightarrow> error \<Rightarrow> event list" where
  "isRetryable_calls r e = (case isRetryable r of None \<Rightarrow> [] | Some p \<Rightarrow> [CallIsRetryable e])"

text \<open>
  The \<^verbatim>\<open>for\<close> loop of \<^verbatim>\<open>retrier.Do\<close> from the loop variable \<open>attempt\<close>, the variable
  \<open>err\<close> and the events so far. The result is the \<^verbatim>\<open>return\<close> statement reached, the
  value returned and the events of the run; \<open>None\<close> stands for a loop that never
  returns.
\<close>

partial_function (option) Do_loop ::
  "retrier \<Rightarrow> Context \<Rightarrow> AttemptFunc \<Rightarrow> Go_int \<Rightarrow> error option \<Rightarrow> event list
   \<Rightarrow> (exit \<times> error option \<times> event list) option"
where
  "Do_loop r ctx f attempt err tr =
     (if maxAttempts r = 0 \<or> attempt <s maxAttempts r then
        (case Err_before ctx attempt of
           Some ctxErr \<Rightarrow> Some (ReturnCtxErr, Some ctxErr, tr)
         | None \<Rightarrow>
            (case f attempt of
               None \<Rightarrow> Some (ReturnNil, None, tr @ [CallAttempt attempt])
             | Some e \<Rightarrow>
                (let tr1 = tr @ [CallAttempt attempt] @ isRetryable_calls r e
                 in if notRetryable r e
                    then Some (ReturnUnretryable, newUnretryableError (Some e), tr1)
                    else
                      (let d = backoff r attempt;
                           tr2 = tr1 @ [CallNext attempt, Wait d]
                       in if Done_first ctx attempt d
                          then Some (ReturnCtxDone, Err_after_Done ctx attempt, tr2)
                          else Do_loop r ctx f (attempt + 1) (Some e) tr2))))
      else Some (ReturnAllAttemptsFailed,
                 Some (fmt_Errorf_w ''all attempts failed: '' err), tr))"

definition retrier_Do ::
  "retrier \<Rightarrow> Context \<Rightarrow> AttemptFunc \<Rightarrow> (exit \<times> error option \<times> event list) option" where
  "retrier_Do r ctx f = Do_loop r ctx f 0 None []"

text \<open>The defaults of \<^verbatim>\<open>New\<close> that do not draw random numbers.\<close>

definition defaultAttempts :: Go_int where
  "defaultAttempts = 3"

definition defaultIsRetryableFunc :: IsRetryableFunc where
  "defaultIsRetryableFunc = (\<lambda>err. err \<noteq> None)"

section \<open>Observations of a run, and concrete inputs\<close>

text \<open>The attempt numbers passed to the operation, and the delays waited for, in a run.\<close>

fun invoked :: "event list \<Rightarrow> Go_int list" where
  "invoked [] = []"
| "invoked (CallAttempt n # es) = n # invoked es"
| "invoked (ev # es) = invoked es"

fun waits :: "event list \<Rightarrow> Duration list" where
  "waits [] = []"
| "waits (Wait d # es) = d # waits es"
| "waits (ev # es) = waits es"

text \<open>Three cancellation signals: never triggered, triggered before \<^verbatim>\<open>Do\<close> is called, and
  triggered during the wait that follows attempt 0.\<close>

definition never_canceled :: Context where
  "never_canceled =
     \<lparr>Err_before = (\<lambda>attempt. None), Done_first = (\<lambda>attempt d. False),
      Err_after_Done = (\<lambda>attempt. None)\<rparr>"

definition canceled_before_Do :: Context where
  "canceled_before_Do =
     \<lparr>Err_before = (\<lambda>attempt. Some context_Canceled), Done_first = (\<lambda>attempt d. True),
      Err_after_Done = (\<lambda>attempt. Some context_Canceled)\<rparr>"

definition canceled_in_first_wait :: Context where
  "canceled_in_first_wait =
     \<lparr>Err_before = (\<lambda>attempt. if attempt = 0 then None else Some context_Canceled),
      Done_first = (\<lambda>attempt d. True),
      Err_after_Done = (\<lambda>attempt. Some context_Canceled)\<rparr>"

text \<open>Operations, a constant backoff of one second, and two configurations.\<close>

definition always_fails :: AttemptFunc where
  "always_fails = (\<lambda>attempt. Some (errorString ''boom''))"

definition fails_unretryable :: AttemptFunc where
  "fails_unretryable = (\<lambda>attempt. Some (UnretryableError (Some (errorString ''boom''))))"

definition fails_with_Canceled :: AttemptFunc where
  "fails_with_Canceled = (\<lambda>attempt. Some context_Canceled)"

definition one_second :: Backoff where
  "one_second = (\<lambda>attempt. 1000000000)"

definition retry_any :: "Go_int \<Rightarrow> retrier" where
  "retry_any n = \<lparr>backoff = one_second, maxAttempts = n, isRetryable = Some defaultIsRetryableFunc\<rparr>"

definition retry_none :: "Go_int \<Rightarrow> retrier" where
  "retry_none n = \<lparr>backoff = one_second, maxAttempts = n, isRetryable = Some (\<lambda>err. False)\<rparr>"


definition base_above_max :: ExponentialBackoff where
  "base_above_max =
     \<lparr>ExponentialBackoff.Base = 10, Factor = Finite 2, ExponentialBackoff.Max = 5,
      ExponentialBackoff.Jitter = Finite 0\<rparr>"

definition doubling :: ExponentialBackoff where
  "doubling =
     \<lparr>ExponentialBackoff.Base = 1000000000, Factor = Finite 2,
      ExponentialBackoff.Max = 30000000000, ExponentialBackoff.Jitter = Finite 0\<rparr>"

definition constant_second :: FixedBackoff where
  "constant_second = \<lparr>Interval = 1000000000, FixedBackoff.Jitter = Finite 0\<rparr>"

definition plain_linear :: LinearBackoff where
  "plain_linear =
     \<lparr>LinearBackoff.Base = 1000000000, Step = 1000000000, LinearBackoff.Max = 10000000000,
      LinearBackoff.Jitter = Finite 0\<rparr>"

definition Pow_returning :: "float64 \<Rightarrow> float64 \<Rightarrow> float64 \<Rightarrow> float64" where
  "Pow_returning p = (\<lambda>x y. p)"

text \<open>
  The value of the return expression of \<^verbatim>\<open>addJitter\<close>,
  \<^verbatim>\<open>time.Duration(float64(d) * (1 + k*jitter))\<close>, for a factor \<open>k\<close> in the place of
  \<^verbatim>\<open>rand.Float64()*2 - 1\<close>: the two ends of the jitter are its values at \<open>k = - 1\<close> and
  \<open>k = 1\<close>. \<open>jitter_product\<close> is the same product over the real numbers that the finite
  values denote, before the conversion to a duration.
\<close>

definition jitter_end :: "Duration \<Rightarrow> float64 \<Rightarrow> float64 \<Rightarrow> Duration option" where
  "jitter_end d jitter k =
     Duration_of_float64
       (f64_mul (float64_of_Duration d) (f64_add (Finite 1) (f64_mul k jitter)))"

definition jitter_product :: "Duration \<Rightarrow> real \<Rightarrow> real \<Rightarrow> real" where
  "jitter_product d jr kr =
     nearest_float64 (nearest_float64 (real_of_int (sint d))
                        * nearest_float64 (1 + nearest_float64 (kr * jr)))"

text \<open>
  What each \<^verbatim>\<open>return\<close> statement of \<^verbatim>\<open>retrier.Do\<close> hands back, read off the loop body:
  the value returned by each of the five statements.
\<close>

definition returned_by ::
  "retrier \<Rightarrow> Context \<Rightarrow> AttemptFunc \<Rightarrow> exit \<Rightarrow> error option \<Rightarrow> bool" where
  "returned_by r ctx f x v \<longleftrightarrow>
     (x = ReturnNil \<and> v = None)
   \<or> (x = ReturnCtxErr \<and> v \<noteq> None \<and> (\<exists>n. v = Err_before ctx n))
   \<or> (x = ReturnCtxDone
        \<and> (\<exists>n. Done_first ctx n (backoff r n) \<and> v = Err_after_Done ctx n))
   \<or> (x = ReturnUnretryable
        \<and> (\<exists>n e. f n = Some e \<and> notRetryable r e \<and> v = Some (UnretryableError (Some e))))
   \<or> (x = ReturnAllAttemptsFailed \<and> maxAttempts r \<noteq> 0
        \<and> (\<exists>cause. (cause = None \<or> (\<exists>n. f n = cause))
              \<and> v = Some (fmt_Errorf_w ''all attempts failed: '' cause)))"

section \<open>Unfolding the loop\<close>

lemma invoked_append: "invoked (xs @ ys) = invoked xs @ invoked ys"
  by (induction xs rule: invoked.induct) simp_all

lemma waits_append: "waits (xs @ ys) = waits xs @ waits ys"
  by (induction xs rule: waits.induct) simp_all

lemma invoked_isRetryable_calls: "invoked (isRetryable_calls r e) = []"
  by (simp add: isRetryable_calls_def split: option.split)

lemma waits_isRetryable_calls: "waits (isRetryable_calls r e) = []"
  by (simp add: isRetryable_calls_def split: option.split)

lemma Do_loop_retry:
  assumes "maxAttempts r = 0 \<or> a <s maxAttempts r"
    and "Err_before ctx a = None" and "f a = Some e" and "\<not> notRetryable r e"
    and "\<not> Done_first ctx a (backoff r a)"
  shows "Do_loop r ctx f a err tr =
         Do_loop r ctx f (a + 1) (Some e)
           (tr @ [CallAttempt a] @ isRetryable_calls r e @ [CallNext a, Wait (backoff r a)])"
  using assms by (subst Do_loop.simps) (simp add: Let_def)

lemma Do_loop_exhausted:
  assumes "maxAttempts r \<noteq> 0" and "\<not> a <s maxAttempts r"
  shows "Do_loop r ctx f a err tr =
         Some (ReturnAllAttemptsFailed, Some (fmt_Errorf_w ''all attempts failed: '' err), tr)"
  using assms by (subst Do_loop.simps) simp

lemma Do_loop_canceled_before:
  assumes "maxAttempts r = 0 \<or> a <s maxAttempts r" and "Err_before ctx a = Some ce"
  shows "Do_loop r ctx f a err tr = Some (ReturnCtxErr, Some ce, tr)"
  using assms by (subst Do_loop.simps) simp

lemma Do_loop_unretryable:
  assumes "maxAttempts r = 0 \<or> a <s maxAttempts r"
    and "Err_before ctx a = None" and "f a = Some e" and "notRetryable r e"
  shows "Do_loop r ctx f a err tr =
         Some (ReturnUnretryable, Some (UnretryableError (Some e)),
               tr @ [CallAttempt a] @ isRetryable_calls r e)"
  using assms by (subst Do_loop.simps) (simp add: Let_def newUnretryableError_def)

lemma Do_loop_canceled_waiting:
  assumes "maxAttempts r = 0 \<or> a <s maxAttempts r"
    and "Err_before ctx a = None" and "f a = Some e" and "\<not> notRetryable r e"
    and "Done_first ctx a (backoff r a)"
  shows "Do_loop r ctx f a err tr =
         Some (ReturnCtxDone, Err_after_Done ctx a,
               tr @ [CallAttempt a] @ isRetryable_calls r e @ [CallNext a, Wait (backoff r a)])"
  using assms by (subst Do_loop.simps) (simp add: Let_def)

lemma Do_loop_succeeds:
  assumes "maxAttempts r = 0 \<or> a <s maxAttempts r"
    and "Err_before ctx a = None" and "f a = None"
  shows "Do_loop r ctx f a err tr = Some (ReturnNil, None, tr @ [CallAttempt a])"
  using assms by (subst Do_loop.simps) simp

section \<open>Claims about the retry loop\<close>

lemma sless_3: "(0::Go_int) <s 3" "(1::Go_int) <s 3" "(2::Go_int) <s 3" "\<not> (3::Go_int) <s 3"
  by (simp_all add: word_sless_alt)

text \<open>
  Claim C4. With \<^verbatim>\<open>maxAttempts = 3\<close>, an operation that fails on every attempt with an
  error that is retried, and a signal that is never triggered, \<^verbatim>\<open>Do\<close> calls the
  operation exactly three times, with the attempt numbers 0, 1 and 2, and returns from
  its last statement: the value is built by \<^verbatim>\<open>fmt.Errorf\<close> around the failure of
  attempt 2, and \<^verbatim>\<open>errors.Unwrap\<close> gives that failure back.
\<close>

theorem C4_three_attempts_then_exhaustion:
  assumes "maxAttempts r = 3"
    and "\<forall>n. \<exists>e. f n = Some e \<and> \<not> notRetryable r e"
    and "\<forall>n. Err_before ctx n = None" and "\<forall>n d. \<not> Done_first ctx n d"
  shows "\<exists>e tr. f 2 = Some e
           \<and> retrier_Do r ctx f =
               Some (ReturnAllAttemptsFailed,
                     Some (fmt_Errorf_w ''all attempts failed: '' (Some e)), tr)
           \<and> invoked tr = [0, 1, 2]
           \<and> errors_Unwrap (Some (fmt_Errorf_w ''all attempts failed: '' (Some e))) = Some e"
proof -
  from assms(2) obtain e0 where e0: "f 0 = Some e0" "\<not> notRetryable r e0" by blast
  from assms(2) obtain e1 where e1: "f 1 = Some e1" "\<not> notRetryable r e1" by blast
  from assms(2) obtain e2 where e2: "f 2 = Some e2" "\<not> notRetryable r e2" by blast
  have s0: "Do_loop r ctx f 0 None [] = Do_loop r ctx f 1 (Some e0)
      ([] @ [CallAttempt 0] @ isRetryable_calls r e0 @ [CallNext 0, Wait (backoff r 0)])"
    using Do_loop_retry [of r 0 ctx f e0 None "[]"] assms e0 sless_3 by simp
  have s1: "Do_loop r ctx f 1 (Some e0) tr = Do_loop r ctx f 2 (Some e1)
      (tr @ [CallAttempt 1] @ isRetryable_calls r e1 @ [CallNext 1, Wait (backoff r 1)])" for tr
    using Do_loop_retry [of r 1 ctx f e1 "Some e0" tr] assms e1 sless_3 by simp
  have s2: "Do_loop r ctx f 2 (Some e1) tr = Do_loop r ctx f 3 (Some e2)
      (tr @ [CallAttempt 2] @ isRetryable_calls r e2 @ [CallNext 2, Wait (backoff r 2)])" for tr
    using Do_loop_retry [of r 2 ctx f e2 "Some e1" tr] assms e2 sless_3 by simp
  have s3: "Do_loop r ctx f 3 (Some e2) tr =
      Some (ReturnAllAttemptsFailed, Some (fmt_Errorf_w ''all attempts failed: '' (Some e2)), tr)" for tr
    using Do_loop_exhausted [of r 3 ctx f "Some e2" tr] assms(1) sless_3 by simp
  show ?thesis
    unfolding retrier_Do_def s0 s1 s2 s3 using e2(1)
    by (simp add: invoked_append invoked_isRetryable_calls fmt_Errorf_w_def)
qed

theorem C4_witness:
  "maxAttempts (retry_any 3) = 3
   \<and> (\<forall>n. \<exists>e. always_fails n = Some e \<and> \<not> notRetryable (retry_any 3) e)
   \<and> (\<forall>n. Err_before never_canceled n = None)
   \<and> (\<forall>n d. \<not> Done_first never_canceled n d)
   \<and> (\<exists>e tr. always_fails 2 = Some e
           \<and> retrier_Do (retry_any 3) never_canceled always_fails =
               Some (ReturnAllAttemptsFailed,
                     Some (fmt_Errorf_w ''all attempts failed: '' (Some e)), tr)
           \<and> invoked tr = [0, 1, 2]
           \<and> errors_Unwrap (Some (fmt_Errorf_w ''all attempts failed: '' (Some e))) = Some e)"
proof -
  have h1: "maxAttempts (retry_any 3) = 3"
    by (simp add: retry_any_def)
  have h2: "\<forall>n. \<exists>e. always_fails n = Some e \<and> \<not> notRetryable (retry_any 3) e"
    by (simp add: always_fails_def notRetryable_def retry_any_def defaultIsRetryableFunc_def)
  have h3: "\<forall>n. Err_before never_canceled n = None"
    by (simp add: never_canceled_def)
  have h4: "\<forall>n d. \<not> Done_first never_canceled n d"
    by (simp add: never_canceled_def)
  from C4_three_attempts_then_exhaustion [OF h1 h2 h3 h4] h1 h2 h3 h4
  show ?thesis by blast
qed

lemma returned_by_ReturnNil: "returned_by r ctx f ReturnNil None"
  by (simp add: returned_by_def)

lemma returned_by_ReturnCtxErr:
  "Err_before ctx n = Some ce \<Longrightarrow> returned_by r ctx f ReturnCtxErr (Some ce)"
  unfolding returned_by_def by (intro disjI2 disjI1 conjI exI [of _ n]) simp_all

lemma returned_by_ReturnCtxDone:
  "Done_first ctx n (backoff r n) \<Longrightarrow> returned_by r ctx f ReturnCtxDone (Err_after_Done ctx n)"
  unfolding returned_by_def by (intro disjI2 disjI1 conjI exI [of _ n]) simp_all

lemma returned_by_ReturnUnretryable:
  "f n = Some e \<Longrightarrow> notRetryable r e \<Longrightarrow>
   returned_by r ctx f ReturnUnretryable (Some (UnretryableError (Some e)))"
  unfolding returned_by_def by (intro disjI2 disjI1 conjI exI [of _ n] exI [of _ e]) simp_all

lemma returned_by_ReturnAllAttemptsFailed:
  "maxAttempts r \<noteq> 0 \<Longrightarrow> err = None \<or> (\<exists>n. f n = err) \<Longrightarrow>
   returned_by r ctx f ReturnAllAttemptsFailed
     (Some (fmt_Errorf_w ''all attempts failed: '' err))"
  unfolding returned_by_def by blast

lemma Do_loop_returns:
  assumes "Do_loop r ctx f a err tr = Some (x, v, tr')"
    and "err = None \<or> (\<exists>n. f n = err)"
  shows "returned_by r ctx f x v"
  using assms
proof (induction r ctx f a err tr "(x, v, tr')" rule: Do_loop.raw_induct)
  case (1 Do_loop' r ctx f attempt err tr)
  note IH = "1.hyps"(1) and body = "1.hyps"(2) and run = "1.prems"(1) and err = "1.prems"(2)
  show ?case
  proof (cases "maxAttempts r = 0 \<or> attempt <s maxAttempts r")
    case False
    with body have "x = ReturnAllAttemptsFailed" "maxAttempts r \<noteq> 0"
      "v = Some (fmt_Errorf_w ''all attempts failed: '' err)"
      by simp_all
    with err show ?thesis by (simp add: returned_by_ReturnAllAttemptsFailed)
  next
    case cond: True
    show ?thesis
    proof (cases "Err_before ctx attempt")
      case (Some ce)
      with cond body have "x = ReturnCtxErr" "v = Some ce"
        by simp_all
      with Some show ?thesis by (simp add: returned_by_ReturnCtxErr)
    next
      case nc: None
      show ?thesis
      proof (cases "f attempt")
        case None
        with cond nc body have "x = ReturnNil" "v = None" by simp_all
        then show ?thesis by (simp add: returned_by_ReturnNil)
      next
        case fe: (Some e)
        show ?thesis
        proof (cases "notRetryable r e")
          case True
          with cond nc fe body
          have "x = ReturnUnretryable" "v = Some (UnretryableError (Some e))"
            by (simp_all add: newUnretryableError_def Let_def)
          with fe True show ?thesis by (simp add: returned_by_ReturnUnretryable)
        next
          case rt: False
          show ?thesis
          proof (cases "Done_first ctx attempt (backoff r attempt)")
            case True
            with cond nc fe rt body
            have "x = ReturnCtxDone" "v = Err_after_Done ctx attempt"
              by (simp_all add: Let_def)
            with True show ?thesis by (simp add: returned_by_ReturnCtxDone)
          next
            case False
            with cond nc fe rt body
            have "Do_loop' r ctx f (attempt + 1) (Some e)
                    (tr @ [CallAttempt attempt] @ isRetryable_calls r e
                        @ [CallNext attempt, Wait (backoff r attempt)]) = Some (x, v, tr')"
              by (simp add: Let_def)
            moreover have "Do_loop r ctx f (attempt + 1) (Some e)
                    (tr @ [CallAttempt attempt] @ isRetryable_calls r e
                        @ [CallNext attempt, Wait (backoff r attempt)]) = Some (x, v, tr')"
              using Do_loop_retry [of r attempt ctx f e err tr] cond nc fe rt False run by simp
            moreover have "Some e = None \<or> (\<exists>n. f n = Some e)"
              using fe by blast
            ultimately show ?thesis by (rule IH)
          qed
        qed
      qed
    qed
  qed
qed (rule assms(1))

text \<open>
  Claim C8. With \<^verbatim>\<open>maxAttempts = 0\<close> no run returns from the last statement of
  \<^verbatim>\<open>Do\<close>: a run that returns gives \<^verbatim>\<open>nil\<close>, the error of the signal, or an
  \<^verbatim>\<open>UnretryableError\<close> around a failure of the operation. In particular, when attempt 0
  fails with an error that is retried and the signal is triggered during the wait that
  follows, \<^verbatim>\<open>Do\<close> returns the value of \<^verbatim>\<open>ctx.Err()\<close> and the operation has been called
  exactly once.
\<close>

theorem C8_unbounded_never_exhausts:
  assumes "maxAttempts r = 0"
  shows "(retrier_Do r ctx f = Some (x, v, tr) \<longrightarrow>
            x \<noteq> ReturnAllAttemptsFailed
            \<and> ((x = ReturnNil \<and> v = None)
               \<or> (x = ReturnCtxErr \<and> (\<exists>n. v = Err_before ctx n))
               \<or> (x = ReturnCtxDone \<and> (\<exists>n. v = Err_after_Done ctx n))
               \<or> (x = ReturnUnretryable
                    \<and> (\<exists>n e. f n = Some e \<and> v = Some (UnretryableError (Some e))))))
       \<and> (Err_before ctx 0 = None \<and> f 0 = Some e \<and> \<not> notRetryable r e
            \<and> Done_first ctx 0 (backoff r 0) \<longrightarrow>
            retrier_Do r ctx f =
              Some (ReturnCtxDone, Err_after_Done ctx 0,
                    [CallAttempt 0] @ isRetryable_calls r e @ [CallNext 0, Wait (backoff r 0)])
            \<and> invoked ([CallAttempt 0] @ isRetryable_calls r e @ [CallNext 0, Wait (backoff r 0)])
                = [0])"
proof (intro conjI impI)
  assume run: "retrier_Do r ctx f = Some (x, v, tr)"
  have shape: "returned_by r ctx f x v"
    using run unfolding retrier_Do_def by (rule Do_loop_returns) simp
  from shape assms show "x \<noteq> ReturnAllAttemptsFailed"
    by (auto simp: returned_by_def)
  from shape assms
  show "(x = ReturnNil \<and> v = None)
      \<or> (x = ReturnCtxErr \<and> (\<exists>n. v = Err_before ctx n))
      \<or> (x = ReturnCtxDone \<and> (\<exists>n. v = Err_after_Done ctx n))
      \<or> (x = ReturnUnretryable \<and> (\<exists>n e. f n = Some e \<and> v = Some (UnretryableError (Some e))))"
    unfolding returned_by_def by blast
next
  assume h: "Err_before ctx 0 = None \<and> f 0 = Some e \<and> \<not> notRetryable r e
             \<and> Done_first ctx 0 (backoff r 0)"
  with assms show "retrier_Do r ctx f =
      Some (ReturnCtxDone, Err_after_Done ctx 0,
            [CallAttempt 0] @ isRetryable_calls r e @ [CallNext 0, Wait (backoff r 0)])"
    unfolding retrier_Do_def
    using Do_loop_canceled_waiting [of r 0 ctx f e None "[]"] by simp
next
  show "invoked ([CallAttempt 0] @ isRetryable_calls r e @ [CallNext 0, Wait (backoff r 0)]) = [0]"
    by (simp add: invoked_append invoked_isRetryable_calls)
qed

theorem C8_witness:
  "maxAttempts (retry_any 0) = 0
   \<and> retrier_Do (retry_any 0) canceled_in_first_wait always_fails =
       Some (ReturnCtxDone, Some context_Canceled,
             [CallAttempt 0, CallIsRetryable (errorString ''boom''), CallNext 0, Wait 1000000000])
   \<and> ReturnCtxDone \<noteq> ReturnAllAttemptsFailed
   \<and> invoked [CallAttempt 0, CallIsRetryable (errorString ''boom''), CallNext 0, Wait 1000000000]
       = [0]"
proof -
  have h1: "maxAttempts (retry_any 0) = 0"
    by (simp add: retry_any_def)
  have h2: "Err_before canceled_in_first_wait 0 = None
            \<and> always_fails 0 = Some (errorString ''boom'')
            \<and> \<not> notRetryable (retry_any 0) (errorString ''boom'')
            \<and> Done_first canceled_in_first_wait 0 (backoff (retry_any 0) 0)"
    by (simp add: canceled_in_first_wait_def always_fails_def notRetryable_def retry_any_def
        defaultIsRetryableFunc_def)
  note C8 = C8_unbounded_never_exhausts [OF h1, of canceled_in_first_wait always_fails
      ReturnCtxDone "Some context_Canceled"
      "[CallAttempt 0, CallIsRetryable (errorString ''boom''), CallNext 0, Wait 1000000000]"
      "errorString ''boom''"]
  from C8 h2 have run: "retrier_Do (retry_any 0) canceled_in_first_wait always_fails =
       Some (ReturnCtxDone, Some context_Canceled,
             [CallAttempt 0, CallIsRetryable (errorString ''boom''), CallNext 0, Wait 1000000000])"
    by (simp add: canceled_in_first_wait_def isRetryable_calls_def retry_any_def one_second_def)
  with C8 h1 show ?thesis by simp
qed

text \<open>
  Claim C1, evaluated on the code with \<^verbatim>\<open>maxAttempts = 1\<close>. After the only permitted attempt
  has failed with an error that is retried, \<^verbatim>\<open>Do\<close> still calls \<^verbatim>\<open>backoff.Next(0)\<close> and
  waits for that delay, and only then returns the error of its last statement. When the
  signal is triggered during that wait, \<^verbatim>\<open>Do\<close> returns the signal's error and the failure
  of the attempt is lost.
\<close>

theorem C1_wait_after_last_attempt:
  "retrier_Do (retry_any 1) never_canceled always_fails =
     Some (ReturnAllAttemptsFailed,
           Some (wrapError ''all attempts failed: boom'' (Some (errorString ''boom''))),
           [CallAttempt 0, CallIsRetryable (errorString ''boom''), CallNext 0, Wait 1000000000])
   \<and> retrier_Do (retry_any 1) canceled_in_first_wait always_fails =
     Some (ReturnCtxDone, Some context_Canceled,
           [CallAttempt 0, CallIsRetryable (errorString ''boom''), CallNext 0, Wait 1000000000])"
proof -
  have c: "(0::Go_int) <s 1" "\<not> (1::Go_int) <s 1"
    by (simp_all add: word_sless_alt)
  have nr: "\<not> notRetryable (retry_any 1) (errorString ''boom'')"
    by (simp add: notRetryable_def retry_any_def defaultIsRetryableFunc_def)
  have "retrier_Do (retry_any 1) never_canceled always_fails =
          Do_loop (retry_any 1) never_canceled always_fails 1 (Some (errorString ''boom''))
            [CallAttempt 0, CallIsRetryable (errorString ''boom''), CallNext 0, Wait 1000000000]"
    unfolding retrier_Do_def
    using Do_loop_retry [of "retry_any 1" 0 never_canceled always_fails "errorString ''boom''"
        None "[]"] c nr
    by (simp add: retry_any_def never_canceled_def always_fails_def isRetryable_calls_def
        one_second_def)
  also have "\<dots> = Some (ReturnAllAttemptsFailed,
           Some (wrapError ''all attempts failed: boom'' (Some (errorString ''boom''))),
           [CallAttempt 0, CallIsRetryable (errorString ''boom''), CallNext 0, Wait 1000000000])"
    using Do_loop_exhausted [of "retry_any 1" 1] c
    by (simp add: retry_any_def fmt_Errorf_w_def)
  finally have first: "retrier_Do (retry_any 1) never_canceled always_fails =
     Some (ReturnAllAttemptsFailed,
           Some (wrapError ''all attempts failed: boom'' (Some (errorString ''boom''))),
           [CallAttempt 0, CallIsRetryable (errorString ''boom''), CallNext 0, Wait 1000000000])" .
  have second: "retrier_Do (retry_any 1) canceled_in_first_wait always_fails =
     Some (ReturnCtxDone, Some context_Canceled,
           [CallAttempt 0, CallIsRetryable (errorString ''boom''), CallNext 0, Wait 1000000000])"
    unfolding retrier_Do_def
    using Do_loop_canceled_waiting [of "retry_any 1" 0 canceled_in_first_wait always_fails
        "errorString ''boom''" None "[]"] c nr
    by (simp add: retry_any_def canceled_in_first_wait_def always_fails_def isRetryable_calls_def
        one_second_def)
  from first second show ?thesis ..
qed

text \<open>
  Claim C6. When the first call of the operation takes place (the attempt limit
  admits attempt 0 and the signal is not triggered before it) and fails with an error on
  which the predicate returns false, \<^verbatim>\<open>Do\<close> calls the operation exactly once, waits for
  no delay, and returns an \<^verbatim>\<open>UnretryableError\<close> whose \<^verbatim>\<open>Unwrap\<close> is the failure.
\<close>

theorem C6_unretryable_stops_at_once:
  assumes "maxAttempts r = 0 \<or> 0 <s maxAttempts r"
    and "Err_before ctx 0 = None"
    and "f 0 = Some e"
    and "isRetryable r = Some p" and "\<not> p (Some e)"
  shows "retrier_Do r ctx f =
           Some (ReturnUnretryable, Some (UnretryableError (Some e)),
                 [CallAttempt 0, CallIsRetryable e])
         \<and> invoked [CallAttempt 0, CallIsRetryable e] = [0]
         \<and> waits [CallAttempt 0, CallIsRetryable e] = []
         \<and> errors_Unwrap (Some (UnretryableError (Some e))) = Some e
         \<and> IsUnretryable (Some (UnretryableError (Some e)))"
proof -
  from assms(4,5) have "notRetryable r e"
    by (simp add: notRetryable_def)
  from Do_loop_unretryable [of r 0 ctx f e None "[]"] assms(1,2,3) this assms(4)
  show ?thesis
    by (simp add: retrier_Do_def isRetryable_calls_def IsUnretryable_def)
qed

theorem C6_witness:
  "(maxAttempts (retry_none 3) = 0 \<or> 0 <s maxAttempts (retry_none 3))
   \<and> Err_before never_canceled 0 = None
   \<and> always_fails 0 = Some (errorString ''boom'')
   \<and> isRetryable (retry_none 3) = Some (\<lambda>err. False)
   \<and> retrier_Do (retry_none 3) never_canceled always_fails =
           Some (ReturnUnretryable, Some (UnretryableError (Some (errorString ''boom''))),
                 [CallAttempt 0, CallIsRetryable (errorString ''boom'')])
   \<and> errors_Unwrap (Some (UnretryableError (Some (errorString ''boom''))))
       = Some (errorString ''boom'')"
proof -
  have h1: "maxAttempts (retry_none 3) = 0 \<or> 0 <s maxAttempts (retry_none 3)"
    by (simp add: retry_none_def word_sless_alt)
  have h2: "Err_before never_canceled 0 = None"
    by (simp add: never_canceled_def)
  have h3: "always_fails 0 = Some (errorString ''boom'')"
    by (simp add: always_fails_def)
  have h4: "isRetryable (retry_none 3) = Some (\<lambda>err. False)"
    by (simp add: retry_none_def)
  have h5: "\<not> (\<lambda>err. False) (Some (errorString ''boom''))"
    by simp
  from C6_unretryable_stops_at_once [of "retry_none 3" never_canceled always_fails
      "errorString ''boom''" "\<lambda>err. False"] h1 h2 h3 h4 h5
  show ?thesis by simp
qed

text \<open>
  Claim C7 fails for a negative \<^verbatim>\<open>maxAttempts\<close>: the loop body is never entered, so a
  signal that is already triggered is not looked at, and \<^verbatim>\<open>Do\<close> returns the error of its
  last statement instead of the signal's error.
\<close>

theorem C7_counterexample:
  "Err_before canceled_before_Do 0 = Some context_Canceled
   \<and> retrier_Do (retry_any (- 1)) canceled_before_Do always_fails =
       Some (ReturnAllAttemptsFailed,
             Some (wrapError ''all attempts failed: %!w(<nil>)'' None), [])
   \<and> Some (wrapError ''all attempts failed: %!w(<nil>)'' None) \<noteq> Some context_Canceled"
proof -
  have "\<not> (0::Go_int) <s - 1" "(- 1 :: Go_int) \<noteq> 0"
    by (simp_all add: word_sless_alt)
  then show ?thesis
    using Do_loop_exhausted [of "retry_any (- 1)" 0 canceled_before_Do always_fails None "[]"]
    by (simp add: retrier_Do_def retry_any_def canceled_before_Do_def fmt_Errorf_w_def)
qed

text \<open>
  Claim C7, amended. For every configuration with \<^verbatim>\<open>maxAttempts >= 0\<close> and every operation,
  a signal that is triggered before \<^verbatim>\<open>Do\<close> is called makes \<^verbatim>\<open>Do\<close> return the signal's own
  error with no call of the operation. The same check stands at the top of every
  iteration: whenever the loop condition admits an attempt and the signal is triggered,
  the loop returns the signal's error without making that attempt.
\<close>

theorem C7_canceled_before_attempt:
  "(Err_before ctx 0 = Some ce \<and> (maxAttempts r = 0 \<or> 0 <s maxAttempts r) \<longrightarrow>
      retrier_Do r ctx f = Some (ReturnCtxErr, Some ce, []))
   \<and> (Err_before ctx attempt = Some ce \<and> (maxAttempts r = 0 \<or> attempt <s maxAttempts r) \<longrightarrow>
      Do_loop r ctx f attempt err tr = Some (ReturnCtxErr, Some ce, tr))"
  by (simp add: retrier_Do_def Do_loop_canceled_before)

theorem C7_witness:
  "Err_before canceled_before_Do 0 = Some context_Canceled
   \<and> (maxAttempts (retry_any 3) = 0 \<or> 0 <s maxAttempts (retry_any 3))
   \<and> retrier_Do (retry_any 3) canceled_before_Do always_fails
        = Some (ReturnCtxErr, Some context_Canceled, [])
   \<and> Err_before canceled_in_first_wait 1 = Some context_Canceled
   \<and> (maxAttempts (retry_any 3) = 0 \<or> 1 <s maxAttempts (retry_any 3))
   \<and> Do_loop (retry_any 3) canceled_in_first_wait always_fails 1 (Some (errorString ''boom''))
        [CallAttempt 0, CallIsRetryable (errorString ''boom''), CallNext 0, Wait 1000000000]
        = Some (ReturnCtxErr, Some context_Canceled,
            [CallAttempt 0, CallIsRetryable (errorString ''boom''), CallNext 0, Wait 1000000000])"
proof -
  have h1: "Err_before canceled_before_Do 0 = Some context_Canceled"
    by (simp add: canceled_before_Do_def)
  have h2: "maxAttempts (retry_any 3) = 0 \<or> 0 <s maxAttempts (retry_any 3)"
    by (simp add: retry_any_def sless_3)
  have h3: "Err_before canceled_in_first_wait 1 = Some context_Canceled"
    by (simp add: canceled_in_first_wait_def)
  have h4: "maxAttempts (retry_any 3) = 0 \<or> 1 <s maxAttempts (retry_any 3)"
    by (simp add: retry_any_def sless_3)
  from C7_canceled_before_attempt [where ctx = canceled_before_Do and ce = context_Canceled
      and r = "retry_any 3" and f = always_fails] h1 h2
  have a: "retrier_Do (retry_any 3) canceled_before_Do always_fails
        = Some (ReturnCtxErr, Some context_Canceled, [])"
    by blast
  from C7_canceled_before_attempt [where ctx = canceled_in_first_wait and ce = context_Canceled
      and r = "retry_any 3" and f = always_fails and attempt = 1] h3 h4
  have b: "Do_loop (retry_any 3) canceled_in_first_wait always_fails 1 err tr
        = Some (ReturnCtxErr, Some context_Canceled, tr)" for err tr
    by blast
  from a b h1 h2 h3 h4 show ?thesis by blast
qed

text \<open>
  Claim C10. For every negative \<^verbatim>\<open>maxAttempts\<close>, \<^verbatim>\<open>Do\<close> returns at once from its last
  statement: a non-nil error with the message of exhaustion whose \<^verbatim>\<open>Unwrap\<close> is
  \<^verbatim>\<open>nil\<close>; the operation, the predicate and the backoff strategy are not called.
\<close>

theorem C10_negative_maxAttempts:
  assumes "maxAttempts r <s 0"
  shows "retrier_Do r ctx f =
           Some (ReturnAllAttemptsFailed,
                 Some (wrapError ''all attempts failed: %!w(<nil>)'' None), [])
         \<and> errors_Unwrap (Some (wrapError ''all attempts failed: %!w(<nil>)'' None)) = None
         \<and> Error (wrapError ''all attempts failed: %!w(<nil>)'' None)
             = ''all attempts failed: %!w(<nil>)''"
proof -
  from assms have "maxAttempts r \<noteq> 0" by auto
  moreover from assms have "\<not> 0 <s maxAttempts r"
    by (simp add: word_sless_alt)
  ultimately show ?thesis
    by (simp add: retrier_Do_def Do_loop_exhausted fmt_Errorf_w_def)
qed

theorem C10_witness:
  "maxAttempts (retry_any (- 1)) <s 0
   \<and> retrier_Do (retry_any (- 1)) never_canceled always_fails =
       Some (ReturnAllAttemptsFailed,
             Some (wrapError ''all attempts failed: %!w(<nil>)'' None), [])"
proof -
  have h: "maxAttempts (retry_any (- 1)) <s 0"
    by (simp add: retry_any_def word_sless_alt)
  from C10_negative_maxAttempts [OF h] h show ?thesis by simp
qed

lemma sless_1: "(0::Go_int) <s 1" "\<not> (1::Go_int) <s 1"
  by (simp_all add: word_sless_alt)

lemma one_attempt_exhausted:
  assumes "f 0 = Some e"
  shows "retrier_Do (retry_any 1) never_canceled f =
     Some (ReturnAllAttemptsFailed, Some (wrapError (''all attempts failed: '' @ Error e) (Some e)),
           [CallAttempt 0, CallIsRetryable e, CallNext 0, Wait 1000000000])"
proof -
  have nr: "\<not> notRetryable (retry_any 1) e"
    by (simp add: notRetryable_def retry_any_def defaultIsRetryableFunc_def)
  have "retrier_Do (retry_any 1) never_canceled f =
          Do_loop (retry_any 1) never_canceled f 1 (Some e)
            [CallAttempt 0, CallIsRetryable e, CallNext 0, Wait 1000000000]"
    unfolding retrier_Do_def
    using Do_loop_retry [of "retry_any 1" 0 never_canceled f e None "[]"] sless_1 nr assms
    by (simp add: retry_any_def never_canceled_def isRetryable_calls_def one_second_def)
  also have "\<dots> = Some (ReturnAllAttemptsFailed,
           Some (wrapError (''all attempts failed: '' @ Error e) (Some e)),
           [CallAttempt 0, CallIsRetryable e, CallNext 0, Wait 1000000000])"
    using Do_loop_exhausted [of "retry_any 1" 1] sless_1
    by (simp add: retry_any_def fmt_Errorf_w_def)
  finally show ?thesis .
qed

lemma sless_2: "(0::Go_int) <s 2" "(1::Go_int) <s 2" "\<not> (2::Go_int) <s 2"
  by (simp_all add: word_sless_alt)

lemma two_attempts_exhausted:
  assumes "f 0 = Some e0" and "f 1 = Some e1"
  shows "retrier_Do (retry_any 2) never_canceled f =
     Some (ReturnAllAttemptsFailed, Some (wrapError (''all attempts failed: '' @ Error e1) (Some e1)),
           [CallAttempt 0, CallIsRetryable e0, CallNext 0, Wait 1000000000,
            CallAttempt 1, CallIsRetryable e1, CallNext 1, Wait 1000000000])"
proof -
  have nr: "\<not> notRetryable (retry_any 2) e" for e
    by (simp add: notRetryable_def retry_any_def defaultIsRetryableFunc_def)
  have "retrier_Do (retry_any 2) never_canceled f =
          Do_loop (retry_any 2) never_canceled f 1 (Some e0)
            [CallAttempt 0, CallIsRetryable e0, CallNext 0, Wait 1000000000]"
    unfolding retrier_Do_def
    using Do_loop_retry [of "retry_any 2" 0 never_canceled f e0 None "[]"] sless_2 nr assms
    by (simp add: retry_any_def never_canceled_def isRetryable_calls_def one_second_def)
  also have "\<dots> = Do_loop (retry_any 2) never_canceled f 2 (Some e1)
            [CallAttempt 0, CallIsRetryable e0, CallNext 0, Wait 1000000000,
             CallAttempt 1, CallIsRetryable e1, CallNext 1, Wait 1000000000]"
    using Do_loop_retry [of "retry_any 2" 1 never_canceled f e1 "Some e0"
        "[CallAttempt 0, CallIsRetryable e0, CallNext 0, Wait 1000000000]"] sless_2 nr assms
    by (simp add: retry_any_def never_canceled_def isRetryable_calls_def one_second_def)
  also have "\<dots> = Some (ReturnAllAttemptsFailed,
           Some (wrapError (''all attempts failed: '' @ Error e1) (Some e1)),
           [CallAttempt 0, CallIsRetryable e0, CallNext 0, Wait 1000000000,
            CallAttempt 1, CallIsRetryable e1, CallNext 1, Wait 1000000000])"
    using Do_loop_exhausted [of "retry_any 2" 2] sless_2
    by (simp add: retry_any_def fmt_Errorf_w_def)
  finally show ?thesis .
qed

text \<open>
  Claim C3 against the code. The operation returns an \<^verbatim>\<open>*UnretryableError\<close> (the
  error of an inner \<^verbatim>\<open>Do\<close>, say) and the predicate is the default one, which retries
  every error. With \<^verbatim>\<open>maxAttempts = 2\<close> the run does not stop at that error: it waits,
  calls the operation a second time, and ends in exhaustion. The error of exhaustion is
  the plain wrap of \<^verbatim>\<open>fmt.Errorf\<close> around the last failure, so \<^verbatim>\<open>IsUnretryable\<close> (that
  is, \<^verbatim>\<open>errors.As\<close> with a \<^verbatim>\<open>*UnretryableError\<close>) holds of it, as it does of the error
  of the unretryable stop of a predicate that rejects the failure: the two outcomes are
  not told apart by unwrapping. In the same way a run exhausted on \<^verbatim>\<open>context.Canceled\<close>
  returns an error on which \<^verbatim>\<open>errors.Is\<close> finds \<^verbatim>\<open>context.Canceled\<close>, although the
  signal was never triggered.
\<close>

theorem C3_exhaustion_looks_unretryable:
  "retrier_Do (retry_any 2) never_canceled fails_unretryable =
     Some (ReturnAllAttemptsFailed,
           Some (wrapError ''all attempts failed: unretryable error: boom''
                   (Some (UnretryableError (Some (errorString ''boom''))))),
           [CallAttempt 0, CallIsRetryable (UnretryableError (Some (errorString ''boom''))),
            CallNext 0, Wait 1000000000,
            CallAttempt 1, CallIsRetryable (UnretryableError (Some (errorString ''boom''))),
            CallNext 1, Wait 1000000000])
   \<and> IsUnretryable (Some (wrapError ''all attempts failed: unretryable error: boom''
                   (Some (UnretryableError (Some (errorString ''boom''))))))
   \<and> retrier_Do (retry_none 2) never_canceled always_fails =
     Some (ReturnUnretryable, Some (UnretryableError (Some (errorString ''boom''))),
           [CallAttempt 0, CallIsRetryable (errorString ''boom'')])
   \<and> IsUnretryable (Some (UnretryableError (Some (errorString ''boom''))))
   \<and> retrier_Do (retry_any 1) never_canceled fails_with_Canceled =
     Some (ReturnAllAttemptsFailed,
           Some (wrapError ''all attempts failed: context canceled'' (Some context_Canceled)),
           [CallAttempt 0, CallIsRetryable context_Canceled, CallNext 0, Wait 1000000000])
   \<and> errors_Is (Some (wrapError ''all attempts failed: context canceled'' (Some context_Canceled)))
        (Some context_Canceled)"
proof -
  have stop: "retrier_Do (retry_none 2) never_canceled always_fails =
     Some (ReturnUnretryable, Some (UnretryableError (Some (errorString ''boom''))),
           [CallAttempt 0, CallIsRetryable (errorString ''boom'')])"
    unfolding retrier_Do_def
    using Do_loop_unretryable [of "retry_none 2" 0 never_canceled always_fails
        "errorString ''boom''" None "[]"] sless_2
    by (simp add: retry_none_def never_canceled_def always_fails_def notRetryable_def
        isRetryable_calls_def)
  show ?thesis
    using two_attempts_exhausted [of fails_unretryable
        "UnretryableError (Some (errorString ''boom''))"
        "UnretryableError (Some (errorString ''boom''))"]
      one_attempt_exhausted [of fails_with_Canceled context_Canceled] stop
    by (simp add: fails_unretryable_def fails_with_Canceled_def IsUnretryable_def errors_Is_def)
qed

section \<open>Claims about the backoff strategies\<close>

subsection \<open>Rounding to \<^verbatim>\<open>float64\<close>\<close>

text \<open>
  The rounding is monotone, it leaves the numbers of \<^verbatim>\<open>float64\<close> unchanged, and its
  relative error is at most \<open>2^-53\<close> (above the subnormal numbers). The evaluation of the
  rounding on a numeral unfolds the definitions listed in \<open>float_eval\<close>.
\<close>

lemmas float_eval = round64_def nearest_float64_def ulp_exponent_def binade_def compute_bitlen
  round_half_even_def f64_sub_def float64_of_Duration_def float64_of_Go_int_def
  trunc_toward_zero_def Let_def

text \<open>
  The rounding on four inputs: \<^verbatim>\<open>float64(1<<53 + 1)\<close> is \<open>2^53\<close>; one second times the
  \<^verbatim>\<open>float64\<close> nearest to 1.7 is 1700000000, although the product of the real numbers is
  below it; one second times the \<^verbatim>\<open>float64\<close> nearest to 1.3 is 1300000000, although the
  product of the real numbers is above it, so that an exponential strategy with a cap of
  1300 ms does not take the capped branch at attempt 1 and returns the jittered delay.
\<close>

lemma float64_examples:
  "float64_of_Duration 9007199254740993 = Finite 9007199254740992"
  "f64_mul (float64_of_Duration 1000000000) (Finite (7656119366529843 / 4503599627370496))
     = Finite 1700000000"
  "f64_mul (float64_of_Duration 1000000000) (Finite (5854679515581645 / 4503599627370496))
     = Finite 1300000000"
  "ExponentialBackoff_Next (Pow_returning (Finite (5854679515581645 / 4503599627370496)))
     \<lparr>ExponentialBackoff.Base = 1000000000,
      Factor = Finite (5854679515581645 / 4503599627370496),
      ExponentialBackoff.Max = 1300000000, ExponentialBackoff.Jitter = Finite (1 / 2)\<rparr>
     1 (Finite 0) = Some 650000000"
  by (simp_all add: ExponentialBackoff_Next_def Pow_returning_def addJitter_def float_eval
      word_sless_alt)

text \<open>Rounding to the nearest integer, ties to even.\<close>

lemma round_half_even_of_int: "round_half_even (of_int k) = k"
  by (simp add: round_half_even_def)

lemma round_half_even_cases:
  "round_half_even t = \<lfloor>t\<rfloor> \<or> round_half_even t = \<lfloor>t\<rfloor> + 1"
  by (simp add: round_half_even_def Let_def)

lemma round_half_even_mono:
  assumes "s \<le> t"
  shows "round_half_even s \<le> round_half_even t"
proof (cases "\<lfloor>s\<rfloor> = \<lfloor>t\<rfloor>")
  case True
  with assms have "s - of_int \<lfloor>s\<rfloor> \<le> t - of_int \<lfloor>t\<rfloor>" by simp
  with True show ?thesis
    by (auto simp add: round_half_even_def Let_def)
next
  case False
  with assms have "\<lfloor>s\<rfloor> + 1 \<le> \<lfloor>t\<rfloor>"
    using floor_mono [of s t] by linarith
  moreover have "round_half_even s \<le> \<lfloor>s\<rfloor> + 1"
    using round_half_even_cases [of s] by linarith
  moreover have "\<lfloor>t\<rfloor> \<le> round_half_even t"
    using round_half_even_cases [of t] by linarith
  ultimately show ?thesis by linarith
qed

lemma round_half_even_minus: "round_half_even (- t) = - round_half_even t"
proof (cases "t = of_int \<lfloor>t\<rfloor>")
  case True
  then obtain k where "t = of_int k" ..
  then have "- t = of_int (- k)" by simp
  then show ?thesis
    using \<open>t = of_int k\<close> round_half_even_of_int by metis
next
  case False
  then have fl: "\<lfloor>- t\<rfloor> = - \<lfloor>t\<rfloor> - 1"
    by (simp add: floor_minus ceiling_altdef)
  show ?thesis
    unfolding round_half_even_def Let_def fl
    by (auto simp add: algebra_simps)
qed

text \<open>The binade of a positive number encloses it between two powers of two.\<close>

lemma binade_bounds:
  assumes "0 < x"
  shows "2 powi binade x \<le> x" and "x < 2 powi (binade x + 1)"
proof -
  have "2 powi binade x \<le> x \<and> x < 2 powi (binade x + 1)"
  proof (cases "1 \<le> x")
    case True
    define m where "m = \<lfloor>x\<rfloor>"
    have m: "0 < m" "of_int m \<le> x" "x < of_int m + 1"
      using True by (simp_all add: m_def)
    have b: "binade x = bitlen m - 1"
      using True by (simp add: binade_def m_def)
    have ge: "1 \<le> bitlen m"
      using m(1) by (simp add: bitlen_alt_def)
    from bitlen_bounds [OF m(1)]
    have lo: "2 ^ nat (bitlen m - 1) \<le> m" and hi: "m < 2 ^ nat (bitlen m)" by simp_all
    have "(2::real) powi (bitlen m - 1) = 2 ^ nat (bitlen m - 1)"
      using ge by (simp add: power_int_def)
    also have "\<dots> = of_int (2 ^ nat (bitlen m - 1))" by simp
    also have "\<dots> \<le> of_int m" using lo by (simp only: of_int_le_iff)
    finally have 1: "2 powi (bitlen m - 1) \<le> x" using m(2) by linarith
    have "m + 1 \<le> 2 ^ nat (bitlen m)" using hi by linarith
    then have "(of_int (m + 1) :: real) \<le> of_int (2 ^ nat (bitlen m))"
      by (simp only: of_int_le_iff)
    moreover have "(of_int (2 ^ nat (bitlen m)) :: real) = 2 ^ nat (bitlen m)" by simp
    ultimately have "of_int m + 1 \<le> (2::real) ^ nat (bitlen m)" by simp
    also have "\<dots> = 2 powi (bitlen m)" using ge by (simp add: power_int_def)
    finally have 2: "x < 2 powi (bitlen m - 1 + 1)" using m(3) by simp
    from 1 2 b show ?thesis by simp
  next
    case False
    define c where "c = \<lceil>1 / x\<rceil>"
    define k where "k = bitlen (c - 1)"
    have y: "1 < 1 / x" using assms False by simp
    have c: "1 / x \<le> of_int c" "of_int c - 1 < 1 / x"
      by (simp_all add: c_def) linarith
    have c1: "0 < c - 1" using y c(1) by linarith
    have b: "binade x = - k"
      using False by (simp add: binade_def c_def k_def)
    have ge: "1 \<le> k"
      using c1 by (simp add: k_def bitlen_alt_def)
    from bitlen_bounds [OF c1]
    have lo: "2 ^ nat (k - 1) \<le> c - 1" and hi: "c - 1 < 2 ^ nat k" by (simp_all add: k_def)
    have "c \<le> 2 ^ nat k" using hi by linarith
    then have "(of_int c :: real) \<le> of_int (2 ^ nat k)" by (simp only: of_int_le_iff)
    moreover have "(of_int (2 ^ nat k) :: real) = 2 ^ nat k" by simp
    ultimately have "1 / x \<le> 2 ^ nat k" using c(1) by linarith
    then have "1 / 2 ^ nat k \<le> x"
      using assms by (simp add: field_simps)
    moreover have "(2::real) powi (- k) = 1 / 2 ^ nat k"
      using ge by (simp add: power_int_def field_simps)
    ultimately have 1: "2 powi (- k) \<le> x" by simp
    have "(of_int (2 ^ nat (k - 1)) :: real) \<le> of_int (c - 1)"
      using lo by (simp only: of_int_le_iff)
    moreover have "(of_int (2 ^ nat (k - 1)) :: real) = 2 ^ nat (k - 1)" by simp
    ultimately have "(2::real) ^ nat (k - 1) < 1 / x" using c(2) by simp
    then have "x < 1 / 2 ^ nat (k - 1)"
      using assms by (simp add: field_simps)
    moreover have "(2::real) powi (- k + 1) = 1 / 2 ^ nat (k - 1)"
    proof -
      have "- k + 1 = - (k - 1)" by simp
      then have "(2::real) powi (- k + 1) = inverse (2 powi (k - 1))"
        by (simp only: power_int_minus)
      also have "(2::real) powi (k - 1) = 2 ^ nat (k - 1)"
        using ge by (simp add: power_int_def)
      finally show ?thesis by (simp add: field_simps)
    qed
    ultimately have 2: "x < 2 powi (- k + 1)" by simp
    from 1 2 b show ?thesis by simp
  qed
  then show "2 powi binade x \<le> x" and "x < 2 powi (binade x + 1)" by simp_all
qed

text \<open>
  A multiple \<open>n * 2^i\<close> of a power of two at or above the last kept bit of \<open>x\<close> is not
  crossed by the rounding of \<open>x\<close>. Monotonicity and exactness follow from this.
\<close>

lemma grid_quotient:
  assumes "u \<le> i"
  shows "of_int n * 2 powi i / 2 powi u = (of_int (n * 2 ^ nat (i - u)) :: real)"
proof -
  have "(2::real) powi i = 2 powi (i - u) * 2 powi u"
    using power_int_add [of "2::real" "i - u" u] by simp
  moreover have "(2::real) powi (i - u) = 2 ^ nat (i - u)"
    using assms by (simp add: power_int_def)
  ultimately show ?thesis by simp
qed

lemma nearest_float64_le_grid:
  assumes "x \<le> of_int n * 2 powi i" and "ulp_exponent x \<le> i" and "x \<noteq> 0"
  shows "nearest_float64 x \<le> of_int n * 2 powi i"
proof -
  let ?u = "ulp_exponent x"
  have pos: "(0::real) < 2 powi ?u" by simp
  have "x / 2 powi ?u \<le> of_int n * 2 powi i / 2 powi ?u"
    using assms(1) pos by (simp add: divide_right_mono)
  also have "\<dots> = of_int (n * 2 ^ nat (i - ?u))"
    using assms(2) by (rule grid_quotient)
  finally have "round_half_even (x / 2 powi ?u) \<le> n * 2 ^ nat (i - ?u)"
    using round_half_even_mono round_half_even_of_int by metis
  then have "(of_int (round_half_even (x / 2 powi ?u)) :: real) \<le> of_int (n * 2 ^ nat (i - ?u))"
    by (simp only: of_int_le_iff)
  then have "of_int (round_half_even (x / 2 powi ?u)) * 2 powi ?u
               \<le> (of_int (n * 2 ^ nat (i - ?u)) :: real) * 2 powi ?u"
    using pos by (simp only: mult_le_cancel_right_pos)
  also have "(of_int (n * 2 ^ nat (i - ?u)) :: real) * 2 powi ?u
               = of_int n * 2 powi i / 2 powi ?u * 2 powi ?u"
    using grid_quotient [OF assms(2), of n] by simp
  also have "\<dots> = of_int n * 2 powi i" by simp
  finally show ?thesis using assms(3) by (simp add: nearest_float64_def)
qed

lemma nearest_float64_ge_grid:
  assumes "of_int n * 2 powi i \<le> x" and "ulp_exponent x \<le> i" and "x \<noteq> 0"
  shows "of_int n * 2 powi i \<le> nearest_float64 x"
proof -
  let ?u = "ulp_exponent x"
  have pos: "(0::real) < 2 powi ?u" by simp
  have "of_int n * 2 powi i / 2 powi ?u \<le> x / 2 powi ?u"
    using assms(1) pos by (simp add: divide_right_mono)
  moreover have "of_int n * 2 powi i / 2 powi ?u = (of_int (n * 2 ^ nat (i - ?u)) :: real)"
    using assms(2) by (rule grid_quotient)
  ultimately have "n * 2 ^ nat (i - ?u) \<le> round_half_even (x / 2 powi ?u)"
    using round_half_even_mono round_half_even_of_int by metis
  then have "(of_int (n * 2 ^ nat (i - ?u)) :: real) \<le> of_int (round_half_even (x / 2 powi ?u))"
    by (simp only: of_int_le_iff)
  then have le: "(of_int (n * 2 ^ nat (i - ?u)) :: real) * 2 powi ?u
               \<le> of_int (round_half_even (x / 2 powi ?u)) * 2 powi ?u"
    using pos by (simp only: mult_le_cancel_right_pos)
  have "(of_int n * 2 powi i :: real) = of_int n * 2 powi i / 2 powi ?u * 2 powi ?u"
    by simp
  also have "\<dots> = (of_int (n * 2 ^ nat (i - ?u)) :: real) * 2 powi ?u"
    using grid_quotient [OF assms(2), of n] by simp
  also note le
  finally show ?thesis using assms(3) by (simp add: nearest_float64_def)
qed

lemma nearest_float64_minus: "nearest_float64 (- x) = - nearest_float64 x"
  by (simp add: nearest_float64_def ulp_exponent_def round_half_even_minus)

lemma nearest_float64_nonneg:
  assumes "0 \<le> x"
  shows "0 \<le> nearest_float64 x"
proof (cases "x = 0")
  case True
  then show ?thesis by (simp add: nearest_float64_def)
next
  case False
  have "of_int 0 * 2 powi ulp_exponent x \<le> nearest_float64 x"
    using assms False by (intro nearest_float64_ge_grid) simp_all
  then show ?thesis by simp
qed

lemma binade_mono:
  assumes "0 < x" and "x \<le> y"
  shows "binade x \<le> binade y"
proof (rule ccontr)
  assume "\<not> binade x \<le> binade y"
  then have "binade y + 1 \<le> binade x" by simp
  then have "(2::real) powi (binade y + 1) \<le> 2 powi binade x"
    by (intro power_int_increasing) simp_all
  moreover have "y < 2 powi (binade y + 1)"
    using assms by (intro binade_bounds) simp
  moreover have "2 powi binade x \<le> x"
    using assms by (intro binade_bounds)
  ultimately show False using assms(2) by linarith
qed

lemma nearest_float64_mono_pos:
  assumes "0 < x" and "x \<le> y"
  shows "nearest_float64 x \<le> nearest_float64 y"
proof (cases "ulp_exponent x = ulp_exponent y")
  case True
  let ?u = "ulp_exponent y"
  have "x / 2 powi ?u \<le> y / 2 powi ?u"
    using assms(2) by (simp add: divide_right_mono)
  then have "round_half_even (x / 2 powi ?u) \<le> round_half_even (y / 2 powi ?u)"
    by (rule round_half_even_mono)
  then have "(of_int (round_half_even (x / 2 powi ?u)) :: real)
               \<le> of_int (round_half_even (y / 2 powi ?u))"
    by (simp only: of_int_le_iff)
  then have "of_int (round_half_even (x / 2 powi ?u)) * 2 powi ?u
               \<le> (of_int (round_half_even (y / 2 powi ?u)) :: real) * 2 powi ?u"
    by (simp only: mult_le_cancel_right_pos zero_less_power_int zero_less_numeral)
  then show ?thesis
    using assms True by (simp add: nearest_float64_def)
next
  case False
  have xy: "0 < y" "\<bar>x\<bar> = x" "\<bar>y\<bar> = y" using assms by simp_all
  have bm: "binade x \<le> binade y" using assms by (rule binade_mono)
  with False have lt: "binade x < binade y" and big: "- 1022 < binade y"
    by (auto simp add: ulp_exponent_def xy max_def split: if_splits)
  have uy: "ulp_exponent y \<le> binade y" and ux: "ulp_exponent x \<le> binade y"
    using lt big by (simp_all add: ulp_exponent_def xy max_def)
  have "x < 2 powi (binade x + 1)" using assms(1) by (rule binade_bounds)
  also have "(2::real) powi (binade x + 1) \<le> 2 powi binade y"
    using lt by (intro power_int_increasing) simp_all
  finally have "x \<le> of_int 1 * 2 powi binade y" by simp
  then have "nearest_float64 x \<le> of_int 1 * 2 powi binade y"
    using ux assms(1) by (intro nearest_float64_le_grid) simp_all
  moreover have "of_int 1 * 2 powi binade y \<le> y"
    using binade_bounds(1) [OF xy(1)] by simp
  then have "of_int 1 * 2 powi binade y \<le> nearest_float64 y"
    using uy xy(1) by (intro nearest_float64_ge_grid) simp_all
  ultimately show ?thesis by linarith
qed

lemma nearest_float64_mono:
  assumes "x \<le> y"
  shows "nearest_float64 x \<le> nearest_float64 y"
proof -
  consider "0 < x" | "x \<le> 0" "0 \<le> y" | "y < 0" by linarith
  then show ?thesis
  proof cases
    case 1
    then show ?thesis using assms by (rule nearest_float64_mono_pos)
  next
    case 2
    have "0 \<le> nearest_float64 (- x)" using 2(1) by (intro nearest_float64_nonneg) simp
    then have "nearest_float64 x \<le> 0" by (simp add: nearest_float64_minus)
    moreover have "0 \<le> nearest_float64 y" using 2(2) by (rule nearest_float64_nonneg)
    ultimately show ?thesis by linarith
  next
    case 3
    have "nearest_float64 (- y) \<le> nearest_float64 (- x)"
      using 3 assms by (intro nearest_float64_mono_pos) simp_all
    then show ?thesis by (simp add: nearest_float64_minus)
  qed
qed

lemma nearest_float64_exact:
  assumes "\<bar>m\<bar> < 2 ^ 53" and "- 1074 \<le> e"
  shows "nearest_float64 (of_int m * 2 powi e) = of_int m * 2 powi e"
proof (cases "m = 0")
  case True
  then show ?thesis by (simp add: nearest_float64_def)
next
  case False
  let ?x = "of_int m * 2 powi e :: real"
  have nz: "?x \<noteq> 0" using False by simp
  have ax: "\<bar>?x\<bar> = of_int \<bar>m\<bar> * 2 powi e" by (simp add: abs_mult)
  have pos: "0 < \<bar>?x\<bar>" using nz by simp
  have "(of_int \<bar>m\<bar> :: real) < of_int (2 ^ 53)"
    using assms(1) by (simp only: of_int_less_iff)
  then have "(of_int \<bar>m\<bar> :: real) < 2 powi 53" by simp
  then have "\<bar>?x\<bar> < 2 powi 53 * 2 powi e"
    unfolding ax by (simp only: mult_less_cancel_right_pos zero_less_power_int zero_less_numeral)
  also have "\<dots> = 2 powi (53 + e)"
    using power_int_add [of "2::real" 53 e] by simp
  finally have up: "\<bar>?x\<bar> < 2 powi (53 + e)" .
  have "binade \<bar>?x\<bar> < 53 + e"
  proof (rule ccontr)
    assume "\<not> binade \<bar>?x\<bar> < 53 + e"
    then have "(2::real) powi (53 + e) \<le> 2 powi binade \<bar>?x\<bar>"
      by (intro power_int_increasing) simp_all
    with binade_bounds(1) [OF pos] up show False by linarith
  qed
  then have u: "ulp_exponent ?x \<le> e"
    using assms(2) by (simp add: ulp_exponent_def max_def)
  have "nearest_float64 ?x \<le> ?x"
    using u nz by (intro nearest_float64_le_grid) simp_all
  moreover have "?x \<le> nearest_float64 ?x"
    using u nz by (intro nearest_float64_ge_grid) simp_all
  ultimately show ?thesis by linarith
qed

lemma nearest_float64_of_int:
  assumes "\<bar>n\<bar> \<le> 2 ^ 53"
  shows "nearest_float64 (of_int n) = of_int n"
proof (cases "\<bar>n\<bar> < 2 ^ 53")
  case True
  then show ?thesis using nearest_float64_exact [of n 0] by simp
next
  case False
  with assms have "n = 2 ^ 53 \<or> n = - (2 ^ 53)" by linarith
  then have "of_int n = (of_int 1 * 2 powi 53 :: real) \<or> of_int n = (of_int (- 1) * 2 powi 53 :: real)"
    by auto
  then show ?thesis
    using nearest_float64_exact [of 1 53] nearest_float64_exact [of "- 1" 53] by auto
qed

lemma nearest_float64_power_of_two:
  assumes "- 1074 \<le> e"
  shows "nearest_float64 (2 powi e) = 2 powi e"
  using nearest_float64_exact [of 1 e] assms by simp

text \<open>The error of the rounding.\<close>

lemma round_half_even_error: "\<bar>of_int (round_half_even t) - t\<bar> \<le> 1 / 2"
  unfolding round_half_even_def Let_def
  by (auto simp add: abs_le_iff)

lemma nearest_float64_error:
  "\<bar>nearest_float64 x - x\<bar> \<le> 2 powi (- 53) * \<bar>x\<bar> + 2 powi (- 1075)"
proof (cases "x = 0")
  case True
  then show ?thesis by (simp add: nearest_float64_def)
next
  case False
  let ?u = "ulp_exponent x"
  have pos: "(0::real) < 2 powi ?u" by simp
  have "nearest_float64 x - x
          = (of_int (round_half_even (x / 2 powi ?u)) - x / 2 powi ?u) * 2 powi ?u"
    using False by (simp add: nearest_float64_def algebra_simps)
  then have "\<bar>nearest_float64 x - x\<bar>
          = \<bar>of_int (round_half_even (x / 2 powi ?u)) - x / 2 powi ?u\<bar> * 2 powi ?u"
    by (simp add: abs_mult)
  also have "\<dots> \<le> 1 / 2 * 2 powi ?u"
    using round_half_even_error [of "x / 2 powi ?u"] pos
    by (simp only: mult_le_cancel_right_pos)
  also have "1 / 2 * 2 powi ?u = (2::real) powi (?u - 1)"
    using power_int_add [of "2::real" ?u "- 1"] by simp
  finally have e: "\<bar>nearest_float64 x - x\<bar> \<le> 2 powi (?u - 1)" .
  show ?thesis
  proof (cases "- 1022 \<le> binade \<bar>x\<bar>")
    case True
    then have "?u - 1 = - 53 + binade \<bar>x\<bar>" by (simp add: ulp_exponent_def)
    then have "(2::real) powi (?u - 1) = 2 powi (- 53 + binade \<bar>x\<bar>)" by (rule arg_cong)
    also have "\<dots> = 2 powi (- 53) * 2 powi binade \<bar>x\<bar>"
      by (rule power_int_add) simp
    also have "\<dots> \<le> 2 powi (- 53) * \<bar>x\<bar>"
      using binade_bounds(1) [of "\<bar>x\<bar>"] False by (intro mult_left_mono) simp_all
    finally show ?thesis using e by simp
  next
    case False
    then have "?u - 1 = - 1075" by (simp add: ulp_exponent_def)
    with e have "\<bar>nearest_float64 x - x\<bar> \<le> 2 powi (- 1075)" by simp
    moreover have "0 \<le> 2 powi (- 53) * \<bar>x\<bar>" by simp
    ultimately show ?thesis by linarith
  qed
qed

text \<open>
  Results of a magnitude of at most \<open>2^62\<close> are far from overflow: the operations return
  the finite value there. The conversions between durations and \<^verbatim>\<open>float64\<close>.
\<close>

lemma nearest_float64_abs_le:
  assumes "\<bar>x\<bar> \<le> 2 ^ k"
  shows "\<bar>nearest_float64 x\<bar> \<le> 2 ^ k"
proof -
  have p: "nearest_float64 (2 ^ k) = 2 ^ k"
    using nearest_float64_power_of_two [of "int k"] by simp
  from assms have "x \<le> 2 ^ k" "- (2 ^ k) \<le> x" by simp_all
  then have "nearest_float64 x \<le> nearest_float64 (2 ^ k)"
      "nearest_float64 (- (2 ^ k)) \<le> nearest_float64 x"
    by (simp_all only: nearest_float64_mono)
  then show ?thesis by (simp add: nearest_float64_minus p)
qed

lemma round64_Finite:
  assumes "\<bar>x\<bar> \<le> 2 ^ 62"
  shows "round64 x = Finite (nearest_float64 x)"
proof -
  have "\<bar>nearest_float64 x\<bar> \<le> 2 ^ 62"
    using assms by (rule nearest_float64_abs_le)
  then have "\<not> 2 ^ 1024 \<le> nearest_float64 x" "\<not> nearest_float64 x \<le> - (2 ^ 1024)"
    by simp_all
  then show ?thesis by (simp add: round64_def Let_def)
qed

lemma real_of_sint_bounds:
  assumes "- (2 ^ k) \<le> sint (d :: 64 word)" and "sint d \<le> 2 ^ k"
  shows "\<bar>real_of_int (sint d)\<bar> \<le> 2 ^ k"
proof -
  from assms have "\<bar>sint d\<bar> \<le> 2 ^ k" by simp
  then have "real_of_int \<bar>sint d\<bar> \<le> real_of_int (2 ^ k)" by (simp only: of_int_le_iff)
  then show ?thesis by simp
qed

lemma float64_of_Duration_Finite:
  "float64_of_Duration d = Finite (nearest_float64 (real_of_int (sint d)))"
proof -
  have "- (2 ^ 63) \<le> sint d" "sint d < 2 ^ 63"
    using sint_ge [of d] sint_lt [of d] by simp_all
  then have "\<bar>real_of_int (sint d)\<bar> \<le> 2 ^ 63"
    by (intro real_of_sint_bounds) simp_all
  then have "\<bar>nearest_float64 (real_of_int (sint d))\<bar> \<le> 2 ^ 63"
    by (rule nearest_float64_abs_le)
  then have "\<not> 2 ^ 1024 \<le> nearest_float64 (real_of_int (sint d))"
      "\<not> nearest_float64 (real_of_int (sint d)) \<le> - (2 ^ 1024)"
    by simp_all
  then show ?thesis by (simp add: float64_of_Duration_def round64_def Let_def)
qed

lemma float64_of_Duration_exact:
  assumes "- (2 ^ 53) \<le> sint d" and "sint d \<le> 2 ^ 53"
  shows "float64_of_Duration d = Finite (real_of_int (sint d))"
proof -
  from assms have "\<bar>sint d\<bar> \<le> 2 ^ 53" by simp
  then show ?thesis
    by (simp only: float64_of_Duration_Finite nearest_float64_of_int)
qed

lemma sint_word_of_int_64:
  assumes "- (2 ^ 63) \<le> t" and "t < 2 ^ 63"
  shows "sint (word_of_int t :: 64 word) = t"
  using assms by (simp add: sint_sbintrunc' signed_take_bit_int_eq_self)

lemma word_of_int_sint_64: "word_of_int (sint d) = (d :: 64 word)"
  by simp

lemma trunc_toward_zero_mono:
  assumes "x \<le> y"
  shows "trunc_toward_zero x \<le> trunc_toward_zero y"
proof -
  have "\<lfloor>x\<rfloor> \<le> \<lfloor>y\<rfloor>" "\<lceil>x\<rceil> \<le> \<lceil>y\<rceil>"
    using assms by (simp_all add: floor_mono ceiling_mono)
  moreover have "\<lceil>x\<rceil> \<le> \<lfloor>y\<rfloor>" if "x < 0" "0 \<le> y"
  proof -
    have "\<lceil>x\<rceil> \<le> 0" using that(1) by (simp add: ceiling_le_iff)
    moreover have "0 \<le> \<lfloor>y\<rfloor>" using that(2) by simp
    ultimately show ?thesis by linarith
  qed
  ultimately show ?thesis
    using assms by (auto simp add: trunc_toward_zero_def)
qed

lemma trunc_toward_zero_of_int: "trunc_toward_zero (of_int n) = n"
  by (simp add: trunc_toward_zero_def)

lemma Duration_of_float64_in_range:
  assumes "\<bar>x\<bar> \<le> 2 ^ 62"
  shows "\<exists>r. Duration_of_float64 (Finite x) = Some r \<and> sint r = trunc_toward_zero x"
proof -
  from assms have "- (2 ^ 62) \<le> x" "x \<le> 2 ^ 62" by simp_all
  then have "trunc_toward_zero (of_int (- (2 ^ 62))) \<le> trunc_toward_zero x"
      "trunc_toward_zero x \<le> trunc_toward_zero (of_int (2 ^ 62))"
    by (simp_all add: trunc_toward_zero_mono)
  then have r: "- (2 ^ 62) \<le> trunc_toward_zero x" "trunc_toward_zero x \<le> 2 ^ 62"
    by (simp_all only: trunc_toward_zero_of_int)
  then have "- (2 ^ 63) \<le> trunc_toward_zero x" "trunc_toward_zero x < 2 ^ 63"
    by simp_all
  then show ?thesis
    by (simp add: Let_def sint_word_of_int_64)
qed

text \<open>
  The product computed by \<^verbatim>\<open>addJitter\<close>, for a factor \<open>kr\<close> between \<open>- 1\<close> and 1 in the
  place of \<^verbatim>\<open>rand.Float64()*2 - 1\<close>: it is finite, and monotone in the factor.
\<close>

lemma jitter_factor_bounds:
  assumes "0 < jr" and "jr < 1" and "- 1 \<le> kr" and "kr \<le> 1"
  shows "\<bar>kr * jr\<bar> \<le> 2 ^ 0" and "\<bar>nearest_float64 (kr * jr)\<bar> \<le> 2 ^ 0"
    and "\<bar>1 + nearest_float64 (kr * jr)\<bar> \<le> 2 ^ 1"
    and "\<bar>nearest_float64 (1 + nearest_float64 (kr * jr))\<bar> \<le> 2 ^ 1"
proof -
  have "\<bar>kr\<bar> \<le> 1" "\<bar>jr\<bar> \<le> 1" using assms by simp_all
  then have "\<bar>kr\<bar> * \<bar>jr\<bar> \<le> 1 * 1"
    by (intro mult_mono) simp_all
  then show a: "\<bar>kr * jr\<bar> \<le> 2 ^ 0" by (simp add: abs_mult)
  then show b: "\<bar>nearest_float64 (kr * jr)\<bar> \<le> 2 ^ 0" by (rule nearest_float64_abs_le)
  then show c: "\<bar>1 + nearest_float64 (kr * jr)\<bar> \<le> 2 ^ 1" by simp
  then show "\<bar>nearest_float64 (1 + nearest_float64 (kr * jr))\<bar> \<le> 2 ^ 1"
    by (rule nearest_float64_abs_le)
qed

lemma abs_le_62: "\<bar>x\<bar> \<le> 2 ^ k \<Longrightarrow> k \<le> 62 \<Longrightarrow> \<bar>x :: real\<bar> \<le> 2 ^ 62"
  by (meson order_trans power_increasing one_le_numeral)

lemma jitter_value:
  assumes "0 < jr" and "jr < 1" and "- 1 \<le> kr" and "kr \<le> 1"
    and "- (2 ^ 61) \<le> sint d" and "sint d \<le> 2 ^ 61"
  shows "f64_mul (float64_of_Duration d) (f64_add (Finite 1) (f64_mul (Finite kr) (Finite jr)))
           = Finite (jitter_product d jr kr)"
    and "\<bar>jitter_product d jr kr\<bar> \<le> 2 ^ 62"
proof -
  note b = jitter_factor_bounds [OF assms(1-4)]
  let ?c = "nearest_float64 (kr * jr)"
  let ?s = "nearest_float64 (1 + ?c)"
  let ?D = "nearest_float64 (real_of_int (sint d))"
  have 1: "f64_mul (Finite kr) (Finite jr) = Finite ?c"
    using abs_le_62 [OF b(1)] by (simp add: round64_Finite)
  have 2: "f64_add (Finite 1) (Finite ?c) = Finite ?s"
    using abs_le_62 [OF b(3)] by (simp add: round64_Finite)
  have D: "\<bar>?D\<bar> \<le> 2 ^ 61"
    using assms(5,6) by (intro nearest_float64_abs_le real_of_sint_bounds)
  have "\<bar>?D\<bar> * \<bar>?s\<bar> \<le> 2 ^ 61 * 2 ^ 1"
    using D b(4) by (intro mult_mono) simp_all
  then have p: "\<bar>?D * ?s\<bar> \<le> 2 ^ 62" by (simp add: abs_mult)
  then have 3: "f64_mul (Finite ?D) (Finite ?s) = Finite (nearest_float64 (?D * ?s))"
    by (simp add: round64_Finite)
  show "f64_mul (float64_of_Duration d) (f64_add (Finite 1) (f64_mul (Finite kr) (Finite jr)))
           = Finite (jitter_product d jr kr)"
    by (simp only: float64_of_Duration_Finite 1 2 3 jitter_product_def)
  show "\<bar>jitter_product d jr kr\<bar> \<le> 2 ^ 62"
    unfolding jitter_product_def using p by (rule nearest_float64_abs_le)
qed

lemma jitter_factor_mono:
  assumes "0 < jr" and "kr \<le> kr'"
  shows "nearest_float64 (1 + nearest_float64 (kr * jr))
           \<le> nearest_float64 (1 + nearest_float64 (kr' * jr))"
proof -
  have "kr * jr \<le> kr' * jr" using assms by simp
  then have "nearest_float64 (kr * jr) \<le> nearest_float64 (kr' * jr)"
    by (rule nearest_float64_mono)
  then show ?thesis by (intro nearest_float64_mono) simp
qed

lemma jitter_product_between:
  assumes "0 < jr" and "- 1 \<le> kr" and "kr \<le> 1"
  shows "min (jitter_product d jr (- 1)) (jitter_product d jr 1) \<le> jitter_product d jr kr"
    and "jitter_product d jr kr \<le> max (jitter_product d jr (- 1)) (jitter_product d jr 1)"
proof -
  let ?D = "nearest_float64 (real_of_int (sint d))"
  let ?s = "\<lambda>k. nearest_float64 (1 + nearest_float64 (k * jr))"
  have lo: "?s (- 1) \<le> ?s kr" and hi: "?s kr \<le> ?s 1"
    using assms by (simp_all only: jitter_factor_mono)
  have "min (jitter_product d jr (- 1)) (jitter_product d jr 1) \<le> jitter_product d jr kr
      \<and> jitter_product d jr kr \<le> max (jitter_product d jr (- 1)) (jitter_product d jr 1)"
  proof (cases "0 \<le> ?D")
    case True
    have "?D * ?s (- 1) \<le> ?D * ?s kr" "?D * ?s kr \<le> ?D * ?s 1"
      using True lo hi by (simp_all only: mult_left_mono)
    then have "jitter_product d jr (- 1) \<le> jitter_product d jr kr"
        "jitter_product d jr kr \<le> jitter_product d jr 1"
      unfolding jitter_product_def by (simp_all only: nearest_float64_mono)
    then show ?thesis by simp
  next
    case False
    then have neg: "?D \<le> 0" by simp
    have "?D * ?s kr \<le> ?D * ?s (- 1)" "?D * ?s 1 \<le> ?D * ?s kr"
      using neg lo hi by (simp_all only: mult_left_mono_neg)
    then have "jitter_product d jr kr \<le> jitter_product d jr (- 1)"
        "jitter_product d jr 1 \<le> jitter_product d jr kr"
      unfolding jitter_product_def by (simp_all only: nearest_float64_mono)
    then show ?thesis by simp
  qed
  then show "min (jitter_product d jr (- 1)) (jitter_product d jr 1) \<le> jitter_product d jr kr"
    and "jitter_product d jr kr \<le> max (jitter_product d jr (- 1)) (jitter_product d jr 1)"
    by simp_all
qed

lemma nearest_float64_simps:
  "nearest_float64 0 = 0" "nearest_float64 1 = 1" "nearest_float64 (- 1) = - 1"
  "nearest_float64 2 = 2"
  using nearest_float64_of_int [of 0] nearest_float64_of_int [of 1]
    nearest_float64_of_int [of "- 1"] nearest_float64_of_int [of 2]
  by simp_all

lemma draw_factor:
  assumes "0 \<le> ur" and "ur < 1"
  shows "\<exists>kr. f64_sub (f64_mul (Finite ur) (Finite 2)) (Finite 1) = Finite kr
           \<and> - 1 \<le> kr \<and> kr \<le> 1"
proof -
  let ?a = "nearest_float64 (ur * 2)"
  let ?k = "nearest_float64 (?a + - 1)"
  have "\<bar>ur * 2\<bar> \<le> 2 ^ 1" using assms by simp
  then have 1: "f64_mul (Finite ur) (Finite 2) = Finite ?a"
    using abs_le_62 by (simp add: round64_Finite)
  have "0 \<le> ur * 2" "ur * 2 \<le> 2" using assms by simp_all
  then have "nearest_float64 0 \<le> ?a" "?a \<le> nearest_float64 2"
    by (simp_all only: nearest_float64_mono)
  then have a: "0 \<le> ?a" "?a \<le> 2" by (simp_all add: nearest_float64_simps)
  then have "\<bar>?a + - 1\<bar> \<le> 2 ^ 0" by simp
  then have 2: "f64_add (Finite ?a) (Finite (- 1)) = Finite ?k"
    using abs_le_62 by (simp add: round64_Finite)
  have "- 1 \<le> ?a + - 1" "?a + - 1 \<le> 1" using a by simp_all
  then have "nearest_float64 (- 1) \<le> ?k" "?k \<le> nearest_float64 1"
    by (simp_all only: nearest_float64_mono)
  then have "- 1 \<le> ?k" "?k \<le> 1" by (simp_all add: nearest_float64_simps)
  with 1 2 show ?thesis by (simp add: f64_sub_def)
qed

lemma f64_unit_interval:
  assumes "f64_le (Finite 0) u" and "f64_less u (Finite 1)"
  obtains ur where "u = Finite ur" and "0 \<le> ur" and "ur < 1"
  using assms by (cases u) simp_all

lemma f64_open_unit_interval:
  assumes "f64_less (Finite 0) j" and "f64_less j (Finite 1)"
  obtains jr where "j = Finite jr" and "0 < jr" and "jr < 1"
  using assms by (cases j) simp_all

text \<open>The sum of the linear strategy when it does not wrap around.\<close>

lemma linear_sum_sint:
  assumes "- (2 ^ 63) \<le> sint b + sint n * sint s" and "sint b + sint n * sint s < 2 ^ 63"
  shows "sint (b + n * s :: 64 word) = sint b + sint n * sint s"
proof -
  have "b + n * s = word_of_int (sint b) + word_of_int (sint n) * word_of_int (sint s)"
    by (simp only: word_of_int_sint_64)
  also have "\<dots> = word_of_int (sint b + sint n * sint s)"
    by (simp only: of_int_add of_int_mult)
  finally show ?thesis
    using assms by (simp only: sint_word_of_int_64)
qed

text \<open>The exponential strategy with jitter disabled.\<close>

lemma jitter_disabled:
  assumes "f64_le jitter (Finite 0) \<or> f64_le (Finite 1) jitter"
  shows "addJitter d jitter u = Some d"
  using assms by (simp add: addJitter_def)

lemma round64_of_int:
  assumes "\<bar>m\<bar> \<le> 2 ^ 53"
  shows "round64 (real_of_int m) = Finite (real_of_int m)"
proof -
  from assms have "real_of_int \<bar>m\<bar> \<le> real_of_int (2 ^ 53)" by (simp only: of_int_le_iff)
  then have "\<bar>real_of_int m\<bar> \<le> 2 ^ 53" by simp
  then have "\<bar>real_of_int m\<bar> \<le> 2 ^ 62" by (rule abs_le_62) simp
  then show ?thesis
    using assms by (simp only: round64_Finite nearest_float64_of_int)
qed

lemma cap_test_exact:
  assumes "\<bar>m\<bar> \<le> 2 ^ 53" and "0 < M"
  shows "nearest_float64 (real_of_int M) < real_of_int m \<longleftrightarrow> M < m"
proof
  assume "nearest_float64 (real_of_int M) < real_of_int m"
  show "M < m"
  proof (rule ccontr)
    assume "\<not> M < m"
    then have "real_of_int m \<le> real_of_int M" by simp
    then have "nearest_float64 (real_of_int m) \<le> nearest_float64 (real_of_int M)"
      by (rule nearest_float64_mono)
    with assms(1) \<open>nearest_float64 (real_of_int M) < real_of_int m\<close> show False
      by (simp add: nearest_float64_of_int)
  qed
next
  assume "M < m"
  then have "real_of_int M \<le> real_of_int (m - 1)" by simp
  then have "nearest_float64 (real_of_int M) \<le> nearest_float64 (real_of_int (m - 1))"
    by (rule nearest_float64_mono)
  moreover have "\<bar>m - 1\<bar> \<le> 2 ^ 53" using assms \<open>M < m\<close> by simp
  then have "nearest_float64 (real_of_int (m - 1)) = real_of_int (m - 1)"
    by (rule nearest_float64_of_int)
  ultimately show "nearest_float64 (real_of_int M) < real_of_int m" by simp
qed

lemma Duration_of_float64_of_int:
  assumes "- (2 ^ 63) \<le> m" and "m < 2 ^ 63"
  shows "Duration_of_float64 (Finite (real_of_int m)) = Some (word_of_int m)"
  using assms by (simp add: trunc_toward_zero_of_int Let_def)

lemma float64_of_Go_int_0: "float64_of_Go_int 0 = Finite 0"
  by (simp add: float64_of_Go_int_def round64_def nearest_float64_simps Let_def)

lemma exponential_exact:
  assumes off: "f64_le (ExponentialBackoff.Jitter e) (Finite 0)
                 \<or> f64_le (Finite 1) (ExponentialBackoff.Jitter e)"
    and pow: "math_Pow (Factor e) (float64_of_Go_int attempt) = Finite p"
    and base: "- (2 ^ 53) \<le> sint (ExponentialBackoff.Base e)"
              "sint (ExponentialBackoff.Base e) \<le> 2 ^ 53"
    and prod: "real_of_int (sint (ExponentialBackoff.Base e)) * p = real_of_int m"
              "\<bar>m\<bar> \<le> 2 ^ 53"
  shows "ExponentialBackoff_Next math_Pow e attempt u =
           Some (if 0 <s ExponentialBackoff.Max e \<and> sint (ExponentialBackoff.Max e) < m
                 then ExponentialBackoff.Max e else word_of_int m)"
proof -
  let ?M = "ExponentialBackoff.Max e"
  have d: "f64_mul (float64_of_Duration (ExponentialBackoff.Base e))
             (math_Pow (Factor e) (float64_of_Go_int attempt)) = Finite (real_of_int m)"
    using round64_of_int [OF prod(2)]
    by (simp add: pow float64_of_Duration_exact [OF base] prod(1) del: of_int_sint)
  have test: "(0 <s ?M \<and> f64_less (float64_of_Duration ?M) (Finite (real_of_int m)))
               \<longleftrightarrow> (0 <s ?M \<and> sint ?M < m)"
    using cap_test_exact [OF prod(2), of "sint ?M"]
    by (auto simp add: float64_of_Duration_Finite word_sless_alt)
  have conv: "Duration_of_float64 (Finite (real_of_int m)) = Some (word_of_int m)"
    using prod(2) by (intro Duration_of_float64_of_int) simp_all
  show ?thesis
    unfolding ExponentialBackoff_Next_def Let_def d test conv
    by (simp add: jitter_disabled [OF off])
qed

text \<open>
  The distance of the product computed by \<^verbatim>\<open>addJitter\<close> from the product of the real
  numbers.
\<close>

lemma trunc_toward_zero_near: "\<bar>real_of_int (trunc_toward_zero x) - x\<bar> \<le> 1"
  unfolding trunc_toward_zero_def by (auto simp add: abs_le_iff) linarith+

lemma jittered_between:
  assumes "(0::real) < j" and "- 1 \<le> k" and "k \<le> 1"
  shows "min (D * (1 - j)) (D * (1 + j)) \<le> D * (1 + k * j)"
    and "D * (1 + k * j) \<le> max (D * (1 - j)) (D * (1 + j))"
proof -
  have lo: "1 - j \<le> 1 + k * j" and hi: "1 + k * j \<le> 1 + j"
  proof -
    have "(- 1) * j \<le> k * j" using assms by (intro mult_right_mono) simp_all
    then show "1 - j \<le> 1 + k * j" by simp
    have "k * j \<le> 1 * j" using assms by (intro mult_right_mono) simp_all
    then show "1 + k * j \<le> 1 + j" by simp
  qed
  show "min (D * (1 - j)) (D * (1 + j)) \<le> D * (1 + k * j)"
  proof (cases "0 \<le> D")
    case True
    then have "D * (1 - j) \<le> D * (1 + k * j)" using lo by (rule mult_left_mono [rotated])
    then show ?thesis by simp
  next
    case False
    then have "D * (1 + j) \<le> D * (1 + k * j)" using hi by (intro mult_left_mono_neg) simp_all
    then show ?thesis by simp
  qed
  show "D * (1 + k * j) \<le> max (D * (1 - j)) (D * (1 + j))"
  proof (cases "0 \<le> D")
    case True
    then have "D * (1 + k * j) \<le> D * (1 + j)" using hi by (rule mult_left_mono [rotated])
    then show ?thesis by simp
  next
    case False
    then have "D * (1 + k * j) \<le> D * (1 - j)" using lo by (intro mult_left_mono_neg) simp_all
    then show ?thesis by simp
  qed
qed

lemma jitter_product_error:
  assumes "0 < jr" and "jr < 1" and "- 1 \<le> kr" and "kr \<le> 1"
    and "- (2 ^ 53) \<le> sint d" and "sint d \<le> 2 ^ 53"
  shows "\<bar>jitter_product d jr kr - real_of_int (sint d) * (1 + kr * jr)\<bar>
           \<le> 1 + \<bar>real_of_int (sint d)\<bar> * 2 powi (- 50)"
proof -
  define D where "D = real_of_int (sint d)"
  define c where "c = nearest_float64 (kr * jr)"
  define s where "s = nearest_float64 (1 + c)"
  define x where "x = nearest_float64 (D * s)"
  define eps :: real where "eps = 2 powi (- 53)"
  define t :: real where "t = 2 powi (- 1075)"
  note b = jitter_factor_bounds [OF assms(1-4)]
  have eps: "0 < eps" "8 * eps = 2 powi (- 50)"
    using power_int_add [of "2::real" 3 "- 53"] by (simp_all add: eps_def)
  have t: "0 < t" "t \<le> eps" "t \<le> 1 / 2"
  proof -
    show "0 < t" by (simp add: t_def)
    show "t \<le> eps" unfolding t_def eps_def by (intro power_int_increasing) simp_all
    have "(2::real) powi (- 1075) \<le> 2 powi (- 1)" by (intro power_int_increasing) simp_all
    then show "t \<le> 1 / 2" by (simp add: t_def)
  qed
  have "\<bar>sint d\<bar> \<le> 2 ^ 53" using assms(5,6) by simp
  then have Dx: "nearest_float64 D = D"
    unfolding D_def by (rule nearest_float64_of_int)
  have kj: "\<bar>kr * jr\<bar> \<le> 1" using b(1) by simp
  have c1: "\<bar>c\<bar> \<le> 1" using b(2) by (simp add: c_def)
  have s2: "\<bar>s\<bar> \<le> 2" using b(4) by (simp add: s_def c_def)
  have "\<bar>c - kr * jr\<bar> \<le> eps * \<bar>kr * jr\<bar> + t"
    unfolding c_def eps_def t_def by (rule nearest_float64_error)
  also have "\<dots> \<le> eps * 1 + t"
    using kj eps(1) by (intro add_right_mono mult_left_mono) simp_all
  finally have ec: "\<bar>c - kr * jr\<bar> \<le> eps + t" by simp
  have "\<bar>1 + c\<bar> \<le> 2" using c1 by simp
  have "\<bar>s - (1 + c)\<bar> \<le> eps * \<bar>1 + c\<bar> + t"
    unfolding s_def eps_def t_def by (rule nearest_float64_error)
  also have "\<dots> \<le> eps * 2 + t"
    using \<open>\<bar>1 + c\<bar> \<le> 2\<close> eps(1) by (intro add_right_mono mult_left_mono) simp_all
  finally have es: "\<bar>s - (1 + c)\<bar> \<le> 2 * eps + t" by simp
  have e1: "\<bar>s - (1 + kr * jr)\<bar> \<le> 3 * eps + 2 * t"
    using ec es by linarith
  have "\<bar>D * s - D * (1 + kr * jr)\<bar> = \<bar>D\<bar> * \<bar>s - (1 + kr * jr)\<bar>"
    by (simp add: abs_mult [symmetric] algebra_simps)
  also have "\<dots> \<le> \<bar>D\<bar> * (3 * eps + 2 * t)"
    using e1 by (intro mult_left_mono) simp_all
  finally have e2: "\<bar>D * s - D * (1 + kr * jr)\<bar> \<le> \<bar>D\<bar> * (3 * eps + 2 * t)" .
  have "\<bar>D * s\<bar> = \<bar>D\<bar> * \<bar>s\<bar>" by (simp add: abs_mult)
  also have "\<dots> \<le> \<bar>D\<bar> * 2" using s2 by (intro mult_left_mono) simp_all
  finally have Ds: "\<bar>D * s\<bar> \<le> \<bar>D\<bar> * 2" .
  have "\<bar>x - D * s\<bar> \<le> eps * \<bar>D * s\<bar> + t"
    unfolding x_def eps_def t_def by (rule nearest_float64_error)
  also have "\<dots> \<le> eps * (\<bar>D\<bar> * 2) + t"
    using Ds eps(1) by (intro add_right_mono mult_left_mono) simp_all
  finally have e3: "\<bar>x - D * s\<bar> \<le> \<bar>D\<bar> * (2 * eps) + t" by (simp add: algebra_simps)
  have "\<bar>x - D * (1 + kr * jr)\<bar> \<le> \<bar>D\<bar> * (2 * eps) + t + \<bar>D\<bar> * (3 * eps + 2 * t)"
    using e2 e3 by linarith
  also have "\<dots> = \<bar>D\<bar> * (5 * eps + 2 * t) + t" by (simp add: algebra_simps)
  also have "\<dots> \<le> \<bar>D\<bar> * (8 * eps) + 1"
  proof -
    have "5 * eps + 2 * t \<le> 8 * eps" using t(2) eps(1) by linarith
    then have "\<bar>D\<bar> * (5 * eps + 2 * t) \<le> \<bar>D\<bar> * (8 * eps)"
      by (intro mult_left_mono) simp_all
    then show ?thesis using t(3) by linarith
  qed
  finally have "\<bar>x - D * (1 + kr * jr)\<bar> \<le> 1 + \<bar>D\<bar> * 2 powi (- 50)"
    by (simp add: eps(2))
  moreover have "jitter_product d jr kr = x"
    by (simp add: jitter_product_def x_def s_def c_def D_def Dx [unfolded D_def] del: of_int_sint)
  ultimately show ?thesis by (simp add: D_def del: of_int_sint)
qed

lemma exponential_rounded:
  assumes off: "f64_le (ExponentialBackoff.Jitter e) (Finite 0)
                 \<or> f64_le (Finite 1) (ExponentialBackoff.Jitter e)"
    and max: "0 <s ExponentialBackoff.Max e" "sint (ExponentialBackoff.Max e) \<le> 2 ^ 53"
    and pow: "math_Pow (Factor e) (float64_of_Go_int attempt) = Finite p"
    and base: "- (2 ^ 53) \<le> sint (ExponentialBackoff.Base e)"
              "sint (ExponentialBackoff.Base e) \<le> 2 ^ 53"
    and prod: "\<bar>real_of_int (sint (ExponentialBackoff.Base e)) * p\<bar> \<le> 2 ^ 62"
  shows "\<exists>r. ExponentialBackoff_Next math_Pow e attempt u = Some r
           \<and> sint r = trunc_toward_zero
                 (min (nearest_float64 (real_of_int (sint (ExponentialBackoff.Base e)) * p))
                      (real_of_int (sint (ExponentialBackoff.Max e))))"
proof -
  let ?M = "ExponentialBackoff.Max e"
  let ?P = "nearest_float64 (real_of_int (sint (ExponentialBackoff.Base e)) * p)"
  have d: "f64_mul (float64_of_Duration (ExponentialBackoff.Base e))
             (math_Pow (Factor e) (float64_of_Go_int attempt)) = Finite ?P"
    using round64_Finite [OF prod]
    by (simp add: pow float64_of_Duration_exact [OF base] del: of_int_sint)
  have M: "float64_of_Duration ?M = Finite (real_of_int (sint ?M))"
    using max by (intro float64_of_Duration_exact) (simp_all add: word_sless_alt)
  have P: "\<bar>?P\<bar> \<le> 2 ^ 62" using prod by (rule nearest_float64_abs_le)
  show ?thesis
  proof (cases "real_of_int (sint ?M) < ?P")
    case True
    then have "ExponentialBackoff_Next math_Pow e attempt u = Some ?M"
      unfolding ExponentialBackoff_Next_def Let_def d M using max(1) by simp
    moreover from True have "min ?P (real_of_int (sint ?M)) = real_of_int (sint ?M)" by simp
    ultimately show ?thesis by (simp only: trunc_toward_zero_of_int) simp
  next
    case False
    from Duration_of_float64_in_range [OF P] obtain r
      where r: "Duration_of_float64 (Finite ?P) = Some r" "sint r = trunc_toward_zero ?P"
      by blast
    from False have "ExponentialBackoff_Next math_Pow e attempt u = Some r"
      unfolding ExponentialBackoff_Next_def Let_def d M r(1)
      by (simp add: jitter_disabled [OF off])
    moreover from False have "min ?P (real_of_int (sint ?M)) = ?P" by simp
    ultimately show ?thesis using r(2) by simp
  qed
qed

text \<open>\<^verbatim>\<open>addJitter\<close> with jitter enabled, and the two ends.\<close>

lemma addJitter_enabled:
  assumes "0 < jr" and "jr < 1" and "f64_le (Finite 0) u" and "f64_less u (Finite 1)"
    and "- (2 ^ 61) \<le> sint d" and "sint d \<le> 2 ^ 61"
  shows "\<exists>kr r. - 1 \<le> kr \<and> kr \<le> 1 \<and> addJitter d (Finite jr) u = Some r
           \<and> sint r = trunc_toward_zero (jitter_product d jr kr)"
proof -
  from assms(3,4) obtain ur where u: "u = Finite ur" "0 \<le> ur" "ur < 1"
    using f64_unit_interval by blast
  from draw_factor [OF u(2,3)] obtain kr
    where k: "f64_sub (f64_mul (Finite ur) (Finite 2)) (Finite 1) = Finite kr"
      "- 1 \<le> kr" "kr \<le> 1"
    by blast
  have on: "\<not> (f64_le (Finite jr) (Finite 0) \<or> f64_le (Finite 1) (Finite jr))"
    using assms(1,2) by simp
  have "addJitter d (Finite jr) u =
      Duration_of_float64 (f64_mul (float64_of_Duration d)
        (f64_add (Finite 1) (f64_mul (Finite kr) (Finite jr))))"
    using on unfolding addJitter_def Let_def u k(1) by (simp only: if_False)
  then have "addJitter d (Finite jr) u = Duration_of_float64 (Finite (jitter_product d jr kr))"
    by (simp only: jitter_value(1) [OF assms(1,2) k(2,3) assms(5,6)])
  moreover obtain r where "Duration_of_float64 (Finite (jitter_product d jr kr)) = Some r"
      "sint r = trunc_toward_zero (jitter_product d jr kr)"
    using Duration_of_float64_in_range [OF jitter_value(2) [OF assms(1,2) k(2,3) assms(5,6)]]
    by blast
  ultimately show ?thesis using k(2,3) by auto
qed

lemma jitter_end_value:
  assumes "0 < jr" and "jr < 1" and "- 1 \<le> kr" and "kr \<le> 1"
    and "- (2 ^ 61) \<le> sint d" and "sint d \<le> 2 ^ 61"
  shows "\<exists>r. jitter_end d (Finite jr) (Finite kr) = Some r
           \<and> sint r = trunc_toward_zero (jitter_product d jr kr)"
proof -
  have "jitter_end d (Finite jr) (Finite kr) = Duration_of_float64 (Finite (jitter_product d jr kr))"
    unfolding jitter_end_def by (simp only: jitter_value(1) [OF assms])
  then show ?thesis
    using Duration_of_float64_in_range [OF jitter_value(2) [OF assms]] by simp
qed

subsection \<open>Claim C9: the jitter\<close>

text \<open>
  Claim C9 fails, by the truncation of the product to whole nanoseconds and by the
  rounding of \<^verbatim>\<open>float64\<close>. With a duration of 3 ns, a jitter fraction of one half and the
  draw 0, the product is 1.5 and \<^verbatim>\<open>addJitter\<close> returns 1 ns, below the lower end 1.5 of
  the interval. With a duration of 1000000005 ns, the jitter fraction
  0.46312909068435454 (the \<^verbatim>\<open>float64\<close> \<open>8342992000921983 / 2^54\<close>) and the draw 0, the
  product is rounded below 536870912 and \<^verbatim>\<open>addJitter\<close> returns 536870911 ns, although
  the lower end \<open>d * (1 - j)\<close> is above 536870912.
\<close>

theorem C9_counterexample:
  "f64_less (Finite 0) (Finite (1 / 2)) \<and> f64_less (Finite (1 / 2)) (Finite 1)
   \<and> addJitter 3 (Finite (1 / 2)) (Finite 0) = Some 1
   \<and> real_of_int (sint (1 :: Duration)) < real_of_int (sint (3 :: Duration)) * (1 - 1 / 2)
   \<and> f64_less (Finite 0) (Finite (8342992000921983 / 18014398509481984))
   \<and> f64_less (Finite (8342992000921983 / 18014398509481984)) (Finite 1)
   \<and> nearest_float64 (8342992000921983 / 18014398509481984)
       = 8342992000921983 / 18014398509481984
   \<and> addJitter 1000000005 (Finite (8342992000921983 / 18014398509481984)) (Finite 0)
       = Some 536870911
   \<and> sint (536870911 :: Duration)
       < \<lfloor>real_of_int (sint (1000000005 :: Duration))
            * (1 - 8342992000921983 / 18014398509481984)\<rfloor>"
  by (simp add: addJitter_def float_eval)

text \<open>
  Claim C9, amended. With a jitter fraction \<open>j \<le> 0\<close> or \<open>j \<ge> 1\<close>, \<^verbatim>\<open>addJitter\<close> returns
  exactly \<open>d\<close>. With \<open>j\<close> strictly between 0 and 1:
  the draw 0 gives the value of \<^verbatim>\<open>time.Duration(float64(d) * (1 + k*j))\<close> at \<open>k = - 1\<close>;
  for every draw of the half-open interval from 0 to 1 and \<open>\<bar>d\<bar> \<le> 2^61\<close>, the returned
  duration lies between the values of that expression at \<open>k = - 1\<close> and at \<open>k = 1\<close>, that
  is between the two ends \<open>d * (1 - j)\<close> and \<open>d * (1 + j)\<close> as \<^verbatim>\<open>float64\<close> computes them,
  truncated towards zero; and for \<open>\<bar>d\<bar> \<le> 2^53\<close> it lies within the interval of the real
  numbers \<open>d * (1 - j)\<close> and \<open>d * (1 + j)\<close> widened at both ends by \<open>2 + \<bar>d\<bar> / 2^50\<close>
  nanoseconds, which covers the truncation and the roundings.
\<close>

theorem C9_jitter_between_float64_ends:
  "(f64_le jitter (Finite 0) \<or> f64_le (Finite 1) jitter \<longrightarrow> addJitter d jitter u = Some d)
   \<and> (f64_less (Finite 0) jitter \<and> f64_less jitter (Finite 1) \<longrightarrow>
        addJitter d jitter (Finite 0) = jitter_end d jitter (Finite (- 1)))
   \<and> (f64_less (Finite 0) jitter \<and> f64_less jitter (Finite 1)
        \<and> f64_le (Finite 0) u \<and> f64_less u (Finite 1)
        \<and> - (2 ^ 61) \<le> sint d \<and> sint d \<le> 2 ^ 61 \<longrightarrow>
        (\<exists>r lo hi. addJitter d jitter u = Some r
           \<and> jitter_end d jitter (Finite (- 1)) = Some lo
           \<and> jitter_end d jitter (Finite 1) = Some hi
           \<and> min (sint lo) (sint hi) \<le> sint r \<and> sint r \<le> max (sint lo) (sint hi)))
   \<and> (jitter = Finite jr \<and> 0 < jr \<and> jr < 1
        \<and> f64_le (Finite 0) u \<and> f64_less u (Finite 1)
        \<and> - (2 ^ 53) \<le> sint d \<and> sint d \<le> 2 ^ 53 \<longrightarrow>
        (\<exists>r. addJitter d jitter u = Some r
           \<and> min (real_of_int (sint d) * (1 - jr)) (real_of_int (sint d) * (1 + jr))
               - (2 + \<bar>real_of_int (sint d)\<bar> * 2 powi (- 50)) \<le> real_of_int (sint r)
           \<and> real_of_int (sint r)
               \<le> max (real_of_int (sint d) * (1 - jr)) (real_of_int (sint d) * (1 + jr))
                   + (2 + \<bar>real_of_int (sint d)\<bar> * 2 powi (- 50))))"
proof (intro conjI impI)
  assume "f64_le jitter (Finite 0) \<or> f64_le (Finite 1) jitter"
  then show "addJitter d jitter u = Some d"
    by (simp add: addJitter_def)
next
  assume h: "f64_less (Finite 0) jitter \<and> f64_less jitter (Finite 1)"
  then obtain jr where j: "jitter = Finite jr" "0 < jr" "jr < 1"
    using f64_open_unit_interval by blast
  have "f64_sub (f64_mul (Finite 0) (Finite 2)) (Finite 1) = Finite (- 1)"
    by (simp add: f64_sub_def round64_def nearest_float64_simps Let_def)
  with j show "addJitter d jitter (Finite 0) = jitter_end d jitter (Finite (- 1))"
    by (simp add: addJitter_def jitter_end_def Let_def)
next
  assume h: "f64_less (Finite 0) jitter \<and> f64_less jitter (Finite 1)
        \<and> f64_le (Finite 0) u \<and> f64_less u (Finite 1)
        \<and> - (2 ^ 61) \<le> sint d \<and> sint d \<le> 2 ^ 61"
  then obtain jr where j: "jitter = Finite jr" "0 < jr" "jr < 1"
    using f64_open_unit_interval by blast
  from h have u: "f64_le (Finite 0) u" "f64_less u (Finite 1)"
    and d: "- (2 ^ 61) \<le> sint d" "sint d \<le> 2 ^ 61"
    by simp_all
  let ?l = "jitter_product d jr (- 1)"
  let ?h = "jitter_product d jr 1"
  from addJitter_enabled [OF j(2,3) u d] obtain kr r
    where r: "- 1 \<le> kr" "kr \<le> 1" "addJitter d (Finite jr) u = Some r"
      "sint r = trunc_toward_zero (jitter_product d jr kr)"
    by blast
  from jitter_end_value [OF j(2,3) _ _ d, of "- 1"] obtain lo
    where lo: "jitter_end d (Finite jr) (Finite (- 1)) = Some lo" "sint lo = trunc_toward_zero ?l"
    by auto
  from jitter_end_value [OF j(2,3) _ _ d, of 1] obtain hi
    where hi: "jitter_end d (Finite jr) (Finite 1) = Some hi" "sint hi = trunc_toward_zero ?h"
    by auto
  let ?v = "jitter_product d jr kr"
  note b = jitter_product_between [OF j(2) r(1,2), of d]
  have "min (trunc_toward_zero ?l) (trunc_toward_zero ?h) \<le> trunc_toward_zero ?v"
    using b(1) trunc_toward_zero_mono [of ?l ?v] trunc_toward_zero_mono [of ?h ?v]
    by (auto simp add: min_def split: if_splits)
  moreover have "trunc_toward_zero ?v \<le> max (trunc_toward_zero ?l) (trunc_toward_zero ?h)"
    using b(2) trunc_toward_zero_mono [of ?v ?l] trunc_toward_zero_mono [of ?v ?h]
    by (auto simp add: max_def split: if_splits)
  ultimately have "min (sint lo) (sint hi) \<le> sint r \<and> sint r \<le> max (sint lo) (sint hi)"
    by (simp only: r(4) lo(2) hi(2))
  with r(3) lo(1) hi(1)
  show "\<exists>r lo hi. addJitter d jitter u = Some r
           \<and> jitter_end d jitter (Finite (- 1)) = Some lo
           \<and> jitter_end d jitter (Finite 1) = Some hi
           \<and> min (sint lo) (sint hi) \<le> sint r \<and> sint r \<le> max (sint lo) (sint hi)"
    unfolding j(1) by blast
next
  assume h: "jitter = Finite jr \<and> 0 < jr \<and> jr < 1
        \<and> f64_le (Finite 0) u \<and> f64_less u (Finite 1)
        \<and> - (2 ^ 53) \<le> sint d \<and> sint d \<le> 2 ^ 53"
  then have j: "jitter = Finite jr" "0 < jr" "jr < 1"
    and u: "f64_le (Finite 0) u" "f64_less u (Finite 1)"
    and d: "- (2 ^ 53) \<le> sint d" "sint d \<le> 2 ^ 53"
    by simp_all
  from d have d': "- (2 ^ 61) \<le> sint d" "sint d \<le> 2 ^ 61" by simp_all
  from addJitter_enabled [OF j(2,3) u d'] obtain kr r
    where r: "- 1 \<le> kr" "kr \<le> 1" "addJitter d (Finite jr) u = Some r"
      "sint r = trunc_toward_zero (jitter_product d jr kr)"
    by blast
  define D where "D = real_of_int (sint d)"
  define v where "v = jitter_product d jr kr"
  have 1: "\<bar>real_of_int (sint r) - v\<bar> \<le> 1"
    unfolding r(4) v_def by (rule trunc_toward_zero_near)
  have 2: "\<bar>v - D * (1 + kr * jr)\<bar> \<le> 1 + \<bar>D\<bar> * 2 powi (- 50)"
    unfolding v_def D_def by (rule jitter_product_error [OF j(2,3) r(1,2) d])
  note 3 = jittered_between [OF j(2) r(1,2), of D]
  have "min (D * (1 - jr)) (D * (1 + jr)) - (2 + \<bar>D\<bar> * 2 powi (- 50)) \<le> real_of_int (sint r)
      \<and> real_of_int (sint r) \<le> max (D * (1 - jr)) (D * (1 + jr)) + (2 + \<bar>D\<bar> * 2 powi (- 50))"
    using 1 2 3 by linarith
  with r(3) show "\<exists>r. addJitter d jitter u = Some r
           \<and> min (real_of_int (sint d) * (1 - jr)) (real_of_int (sint d) * (1 + jr))
               - (2 + \<bar>real_of_int (sint d)\<bar> * 2 powi (- 50)) \<le> real_of_int (sint r)
           \<and> real_of_int (sint r)
               \<le> max (real_of_int (sint d) * (1 - jr)) (real_of_int (sint d) * (1 + jr))
                   + (2 + \<bar>real_of_int (sint d)\<bar> * 2 powi (- 50))"
    unfolding j(1) D_def by blast
qed

theorem C9_witness:
  "addJitter 3 (Finite 0) (Finite (1 / 4)) = Some 3
   \<and> addJitter 3 (Finite (1 / 2)) (Finite 0) = jitter_end 3 (Finite (1 / 2)) (Finite (- 1))
   \<and> (\<exists>r lo hi. addJitter 3 (Finite (1 / 2)) (Finite (1 / 4)) = Some r
           \<and> jitter_end 3 (Finite (1 / 2)) (Finite (- 1)) = Some lo
           \<and> jitter_end 3 (Finite (1 / 2)) (Finite 1) = Some hi
           \<and> min (sint lo) (sint hi) \<le> sint r \<and> sint r \<le> max (sint lo) (sint hi))
   \<and> (\<exists>r. addJitter 3 (Finite (1 / 2)) (Finite (1 / 4)) = Some r
           \<and> min (real_of_int (sint (3 :: Duration)) * (1 - 1 / 2))
                 (real_of_int (sint (3 :: Duration)) * (1 + 1 / 2))
               - (2 + \<bar>real_of_int (sint (3 :: Duration))\<bar> * 2 powi (- 50))
               \<le> real_of_int (sint r)
           \<and> real_of_int (sint r)
               \<le> max (real_of_int (sint (3 :: Duration)) * (1 - 1 / 2))
                       (real_of_int (sint (3 :: Duration)) * (1 + 1 / 2))
                   + (2 + \<bar>real_of_int (sint (3 :: Duration))\<bar> * 2 powi (- 50)))
   \<and> addJitter 3 (Finite (1 / 2)) (Finite (1 / 4)) = Some 2
   \<and> jitter_end 3 (Finite (1 / 2)) (Finite (- 1)) = Some 1
   \<and> jitter_end 3 (Finite (1 / 2)) (Finite 1) = Some 4"
proof -
  have off: "f64_le (Finite 0) (Finite 0) \<or> f64_le (Finite 1) (Finite 0)"
    by simp
  have on: "f64_less (Finite 0) (Finite (1 / 2)) \<and> f64_less (Finite (1 / 2)) (Finite 1)"
    by simp
  have h3: "f64_less (Finite 0) (Finite (1 / 2)) \<and> f64_less (Finite (1 / 2)) (Finite 1)
        \<and> f64_le (Finite 0) (Finite (1 / 4)) \<and> f64_less (Finite (1 / 4)) (Finite 1)
        \<and> - (2 ^ 61) \<le> sint (3 :: Duration) \<and> sint (3 :: Duration) \<le> 2 ^ 61"
    by simp
  have h4: "Finite (1 / 2) = Finite (1 / 2) \<and> (0::real) < 1 / 2 \<and> (1 / 2 :: real) < 1
        \<and> f64_le (Finite 0) (Finite (1 / 4)) \<and> f64_less (Finite (1 / 4)) (Finite 1)
        \<and> - (2 ^ 53) \<le> sint (3 :: Duration) \<and> sint (3 :: Duration) \<le> 2 ^ 53"
    by simp
  have v: "addJitter 3 (Finite (1 / 2)) (Finite (1 / 4)) = Some 2"
      "jitter_end 3 (Finite (1 / 2)) (Finite (- 1)) = Some 1"
      "jitter_end 3 (Finite (1 / 2)) (Finite 1) = Some 4"
    by (simp_all add: addJitter_def jitter_end_def float_eval)
  note a = C9_jitter_between_float64_ends [of "Finite 0" 3 "Finite (1 / 4)" "1 / 2"]
  note b = C9_jitter_between_float64_ends [of "Finite (1 / 2)" 3 "Finite (1 / 4)" "1 / 2"]
  from a off have 1: "addJitter 3 (Finite 0) (Finite (1 / 4)) = Some 3"
    by blast
  from b on have 2: "addJitter 3 (Finite (1 / 2)) (Finite 0)
      = jitter_end 3 (Finite (1 / 2)) (Finite (- 1))"
    by blast
  from b h3 have 3: "\<exists>r lo hi. addJitter 3 (Finite (1 / 2)) (Finite (1 / 4)) = Some r
           \<and> jitter_end 3 (Finite (1 / 2)) (Finite (- 1)) = Some lo
           \<and> jitter_end 3 (Finite (1 / 2)) (Finite 1) = Some hi
           \<and> min (sint lo) (sint hi) \<le> sint r \<and> sint r \<le> max (sint lo) (sint hi)"
    by blast
  from b h4 have 4: "\<exists>r. addJitter 3 (Finite (1 / 2)) (Finite (1 / 4)) = Some r
           \<and> min (real_of_int (sint (3 :: Duration)) * (1 - 1 / 2))
                 (real_of_int (sint (3 :: Duration)) * (1 + 1 / 2))
               - (2 + \<bar>real_of_int (sint (3 :: Duration))\<bar> * 2 powi (- 50))
               \<le> real_of_int (sint r)
           \<and> real_of_int (sint r)
               \<le> max (real_of_int (sint (3 :: Duration)) * (1 - 1 / 2))
                       (real_of_int (sint (3 :: Duration)) * (1 + 1 / 2))
                   + (2 + \<bar>real_of_int (sint (3 :: Duration))\<bar> * 2 powi (- 50))"
    by blast
  from 1 2 3 4 v show ?thesis by blast
qed

subsection \<open>Claim C2: the cap and the jitter\<close>




subsection \<open>Claim C5: the delay of each strategy\<close>

text \<open>
  Claim C5 fails in its last part: with a base of 10 ns above a cap of 5 ns and jitter
  disabled, the exponential \<^verbatim>\<open>Next\<close> at attempt 0, where \<^verbatim>\<open>math.Pow\<close> returns 1, returns
  the cap 5 ns, not the base.
\<close>

theorem C5_counterexample:
  "0 <s ExponentialBackoff.Max base_above_max
   \<and> (f64_le (ExponentialBackoff.Jitter base_above_max) (Finite 0)
      \<or> f64_le (Finite 1) (ExponentialBackoff.Jitter base_above_max))
   \<and> Pow_returning (Finite 1) (Factor base_above_max) (float64_of_Go_int 0) = Finite 1
   \<and> ExponentialBackoff_Next (Pow_returning (Finite 1)) base_above_max 0 (Finite 0) = Some 5
   \<and> ExponentialBackoff.Base base_above_max = 10
   \<and> ExponentialBackoff_Next (Pow_returning (Finite 1)) base_above_max 0 (Finite 0)
       \<noteq> Some (ExponentialBackoff.Base base_above_max)"
  by (simp add: base_above_max_def ExponentialBackoff_Next_def Pow_returning_def float_eval
      word_sless_alt)

text \<open>
  Claim C5, amended. With jitter disabled: the fixed \<^verbatim>\<open>Next\<close> returns the interval; for
  \<^verbatim>\<open>max > 0\<close> the linear \<^verbatim>\<open>Next\<close> returns the smaller of \<^verbatim>\<open>base + n*step\<close> and \<^verbatim>\<open>max\<close>, the
  sum being computed in \<^verbatim>\<open>int64\<close> (it is the sum of the integers when that fits). For the
  exponential \<^verbatim>\<open>Next\<close> with \<^verbatim>\<open>max > 0\<close>, let \<open>p\<close> be the finite value that
  \<^verbatim>\<open>math.Pow(factor, float64(n))\<close> returns and let \<open>\<bar>base\<bar> \<le> 2^53\<close>: when \<open>base * p\<close> is a
  whole number of at most \<open>2^53\<close> in magnitude, \<^verbatim>\<open>Next\<close> returns exactly the smaller of
  \<open>base * p\<close> and \<^verbatim>\<open>max\<close>; in general, for \<open>max \<le> 2^53\<close> and \<open>\<bar>base * p\<bar> \<le> 2^62\<close>, it returns
  the smaller of \<open>P\<close> and \<^verbatim>\<open>max\<close> truncated towards zero, where \<open>P\<close> is \<open>base * p\<close> rounded to
  \<^verbatim>\<open>float64\<close>, within a relative error of \<open>2^-53\<close> (and \<open>2^-1075\<close>) of \<open>base * p\<close>. At
  attempt 0, where \<^verbatim>\<open>math.Pow\<close> returns 1, the exponential \<^verbatim>\<open>Next\<close> returns exactly the
  base for \<open>\<bar>base\<bar> \<le> 2^53\<close>, unless a positive cap lies below the base: then it returns
  the cap.
\<close>

theorem C5_delay_formulas:
  "(f64_le (FixedBackoff.Jitter f) (Finite 0) \<or> f64_le (Finite 1) (FixedBackoff.Jitter f) \<longrightarrow>
      FixedBackoff_Next f attempt u = Some (Interval f))
   \<and> ((f64_le (LinearBackoff.Jitter l) (Finite 0) \<or> f64_le (Finite 1) (LinearBackoff.Jitter l))
        \<and> 0 <s LinearBackoff.Max l \<longrightarrow>
      LinearBackoff_Next l attempt u =
        Some (if LinearBackoff.Max l <s LinearBackoff.Base l + attempt * Step l
              then LinearBackoff.Max l else LinearBackoff.Base l + attempt * Step l))
   \<and> ((f64_le (LinearBackoff.Jitter l) (Finite 0) \<or> f64_le (Finite 1) (LinearBackoff.Jitter l))
        \<and> 0 <s LinearBackoff.Max l
        \<and> - (2 ^ 63) \<le> sint (LinearBackoff.Base l) + sint attempt * sint (Step l)
        \<and> sint (LinearBackoff.Base l) + sint attempt * sint (Step l) < 2 ^ 63 \<longrightarrow>
      (\<exists>r. LinearBackoff_Next l attempt u = Some r
           \<and> sint r = min (sint (LinearBackoff.Base l) + sint attempt * sint (Step l))
                           (sint (LinearBackoff.Max l))))
   \<and> ((f64_le (ExponentialBackoff.Jitter e) (Finite 0)
          \<or> f64_le (Finite 1) (ExponentialBackoff.Jitter e))
        \<and> 0 <s ExponentialBackoff.Max e
        \<and> math_Pow (Factor e) (float64_of_Go_int attempt) = Finite p
        \<and> - (2 ^ 53) \<le> sint (ExponentialBackoff.Base e)
        \<and> sint (ExponentialBackoff.Base e) \<le> 2 ^ 53
        \<and> real_of_int (sint (ExponentialBackoff.Base e)) * p = real_of_int m
        \<and> \<bar>m\<bar> \<le> 2 ^ 53 \<longrightarrow>
      (\<exists>r. ExponentialBackoff_Next math_Pow e attempt u = Some r
           \<and> sint r = min m (sint (ExponentialBackoff.Max e))))
   \<and> ((f64_le (ExponentialBackoff.Jitter e) (Finite 0)
          \<or> f64_le (Finite 1) (ExponentialBackoff.Jitter e))
        \<and> 0 <s ExponentialBackoff.Max e \<and> sint (ExponentialBackoff.Max e) \<le> 2 ^ 53
        \<and> math_Pow (Factor e) (float64_of_Go_int attempt) = Finite p
        \<and> - (2 ^ 53) \<le> sint (ExponentialBackoff.Base e)
        \<and> sint (ExponentialBackoff.Base e) \<le> 2 ^ 53
        \<and> \<bar>real_of_int (sint (ExponentialBackoff.Base e)) * p\<bar> \<le> 2 ^ 62 \<longrightarrow>
      (\<exists>r P. ExponentialBackoff_Next math_Pow e attempt u = Some r
           \<and> \<bar>P - real_of_int (sint (ExponentialBackoff.Base e)) * p\<bar>
               \<le> 2 powi (- 53) * \<bar>real_of_int (sint (ExponentialBackoff.Base e)) * p\<bar>
                   + 2 powi (- 1075)
           \<and> sint r = trunc_toward_zero
                 (min P (real_of_int (sint (ExponentialBackoff.Max e))))))
   \<and> ((f64_le (ExponentialBackoff.Jitter e) (Finite 0)
          \<or> f64_le (Finite 1) (ExponentialBackoff.Jitter e))
        \<and> math_Pow (Factor e) (Finite 0) = Finite 1
        \<and> - (2 ^ 53) \<le> sint (ExponentialBackoff.Base e)
        \<and> sint (ExponentialBackoff.Base e) \<le> 2 ^ 53 \<longrightarrow>
      ExponentialBackoff_Next math_Pow e 0 u =
        Some (if 0 <s ExponentialBackoff.Max e
                   \<and> ExponentialBackoff.Max e <s ExponentialBackoff.Base e
              then ExponentialBackoff.Max e else ExponentialBackoff.Base e))"
proof (intro conjI impI)
  assume "f64_le (FixedBackoff.Jitter f) (Finite 0) \<or> f64_le (Finite 1) (FixedBackoff.Jitter f)"
  then show "FixedBackoff_Next f attempt u = Some (Interval f)"
    by (simp add: FixedBackoff_Next_def jitter_disabled)
next
  assume "(f64_le (LinearBackoff.Jitter l) (Finite 0) \<or> f64_le (Finite 1) (LinearBackoff.Jitter l))
        \<and> 0 <s LinearBackoff.Max l"
  then show "LinearBackoff_Next l attempt u =
        Some (if LinearBackoff.Max l <s LinearBackoff.Base l + attempt * Step l
              then LinearBackoff.Max l else LinearBackoff.Base l + attempt * Step l)"
    by (simp add: LinearBackoff_Next_def jitter_disabled Let_def)
next
  assume h: "(f64_le (LinearBackoff.Jitter l) (Finite 0) \<or> f64_le (Finite 1) (LinearBackoff.Jitter l))
        \<and> 0 <s LinearBackoff.Max l
        \<and> - (2 ^ 63) \<le> sint (LinearBackoff.Base l) + sint attempt * sint (Step l)
        \<and> sint (LinearBackoff.Base l) + sint attempt * sint (Step l) < 2 ^ 63"
  let ?d = "LinearBackoff.Base l + attempt * Step l"
  from h have d: "sint ?d = sint (LinearBackoff.Base l) + sint attempt * sint (Step l)"
    by (intro linear_sum_sint) simp_all
  from h have next_eq: "LinearBackoff_Next l attempt u =
        Some (if LinearBackoff.Max l <s ?d then LinearBackoff.Max l else ?d)"
    by (simp add: LinearBackoff_Next_def jitter_disabled Let_def)
  have "sint (if LinearBackoff.Max l <s ?d then LinearBackoff.Max l else ?d)
          = min (sint ?d) (sint (LinearBackoff.Max l))"
    by (simp add: word_sless_alt min_def)
  with next_eq d
  show "\<exists>r. LinearBackoff_Next l attempt u = Some r
           \<and> sint r = min (sint (LinearBackoff.Base l) + sint attempt * sint (Step l))
                           (sint (LinearBackoff.Max l))"
    by simp
next
  assume h: "(f64_le (ExponentialBackoff.Jitter e) (Finite 0)
          \<or> f64_le (Finite 1) (ExponentialBackoff.Jitter e))
        \<and> 0 <s ExponentialBackoff.Max e
        \<and> math_Pow (Factor e) (float64_of_Go_int attempt) = Finite p
        \<and> - (2 ^ 53) \<le> sint (ExponentialBackoff.Base e)
        \<and> sint (ExponentialBackoff.Base e) \<le> 2 ^ 53
        \<and> real_of_int (sint (ExponentialBackoff.Base e)) * p = real_of_int m
        \<and> \<bar>m\<bar> \<le> 2 ^ 53"
  then have off: "f64_le (ExponentialBackoff.Jitter e) (Finite 0)
          \<or> f64_le (Finite 1) (ExponentialBackoff.Jitter e)"
    and pow: "math_Pow (Factor e) (float64_of_Go_int attempt) = Finite p"
    and base: "- (2 ^ 53) \<le> sint (ExponentialBackoff.Base e)"
      "sint (ExponentialBackoff.Base e) \<le> 2 ^ 53"
    and prod: "real_of_int (sint (ExponentialBackoff.Base e)) * p = real_of_int m"
      "\<bar>m\<bar> \<le> 2 ^ 53"
    by blast+
  have eq: "ExponentialBackoff_Next math_Pow e attempt u =
           Some (if 0 <s ExponentialBackoff.Max e \<and> sint (ExponentialBackoff.Max e) < m
                 then ExponentialBackoff.Max e else word_of_int m)"
    using off pow base prod by (rule exponential_exact)
  from prod(2) have m: "sint (word_of_int m :: 64 word) = m"
    by (intro sint_word_of_int_64) simp_all
  from h have "0 <s ExponentialBackoff.Max e" by simp
  then have "sint (if 0 <s ExponentialBackoff.Max e \<and> sint (ExponentialBackoff.Max e) < m
                 then ExponentialBackoff.Max e else word_of_int m)
             = min m (sint (ExponentialBackoff.Max e))"
    by (simp add: m min_def)
  with eq show "\<exists>r. ExponentialBackoff_Next math_Pow e attempt u = Some r
           \<and> sint r = min m (sint (ExponentialBackoff.Max e))"
    by simp
next
  assume h: "(f64_le (ExponentialBackoff.Jitter e) (Finite 0)
          \<or> f64_le (Finite 1) (ExponentialBackoff.Jitter e))
        \<and> 0 <s ExponentialBackoff.Max e \<and> sint (ExponentialBackoff.Max e) \<le> 2 ^ 53
        \<and> math_Pow (Factor e) (float64_of_Go_int attempt) = Finite p
        \<and> - (2 ^ 53) \<le> sint (ExponentialBackoff.Base e)
        \<and> sint (ExponentialBackoff.Base e) \<le> 2 ^ 53
        \<and> \<bar>real_of_int (sint (ExponentialBackoff.Base e)) * p\<bar> \<le> 2 ^ 62"
  then have off: "f64_le (ExponentialBackoff.Jitter e) (Finite 0)
          \<or> f64_le (Finite 1) (ExponentialBackoff.Jitter e)"
    and max: "0 <s ExponentialBackoff.Max e" "sint (ExponentialBackoff.Max e) \<le> 2 ^ 53"
    and pow: "math_Pow (Factor e) (float64_of_Go_int attempt) = Finite p"
    and base: "- (2 ^ 53) \<le> sint (ExponentialBackoff.Base e)"
      "sint (ExponentialBackoff.Base e) \<le> 2 ^ 53"
    and prod: "\<bar>real_of_int (sint (ExponentialBackoff.Base e)) * p\<bar> \<le> 2 ^ 62"
    by blast+
  have "\<exists>r. ExponentialBackoff_Next math_Pow e attempt u = Some r
           \<and> sint r = trunc_toward_zero
                 (min (nearest_float64 (real_of_int (sint (ExponentialBackoff.Base e)) * p))
                      (real_of_int (sint (ExponentialBackoff.Max e))))"
    using off max pow base prod by (rule exponential_rounded)
  then obtain r
    where r: "ExponentialBackoff_Next math_Pow e attempt u = Some r"
      "sint r = trunc_toward_zero
         (min (nearest_float64 (real_of_int (sint (ExponentialBackoff.Base e)) * p))
              (real_of_int (sint (ExponentialBackoff.Max e))))"
    by blast
  have "\<bar>nearest_float64 (real_of_int (sint (ExponentialBackoff.Base e)) * p)
          - real_of_int (sint (ExponentialBackoff.Base e)) * p\<bar>
        \<le> 2 powi (- 53) * \<bar>real_of_int (sint (ExponentialBackoff.Base e)) * p\<bar>
            + 2 powi (- 1075)"
    by (rule nearest_float64_error)
  with r show "\<exists>r P. ExponentialBackoff_Next math_Pow e attempt u = Some r
           \<and> \<bar>P - real_of_int (sint (ExponentialBackoff.Base e)) * p\<bar>
               \<le> 2 powi (- 53) * \<bar>real_of_int (sint (ExponentialBackoff.Base e)) * p\<bar>
                   + 2 powi (- 1075)
           \<and> sint r = trunc_toward_zero
                 (min P (real_of_int (sint (ExponentialBackoff.Max e))))"
    by blast
next
  assume h: "(f64_le (ExponentialBackoff.Jitter e) (Finite 0)
          \<or> f64_le (Finite 1) (ExponentialBackoff.Jitter e))
        \<and> math_Pow (Factor e) (Finite 0) = Finite 1
        \<and> - (2 ^ 53) \<le> sint (ExponentialBackoff.Base e)
        \<and> sint (ExponentialBackoff.Base e) \<le> 2 ^ 53"
  let ?B = "ExponentialBackoff.Base e"
  from h have off: "f64_le (ExponentialBackoff.Jitter e) (Finite 0)
          \<or> f64_le (Finite 1) (ExponentialBackoff.Jitter e)"
    and pow: "math_Pow (Factor e) (float64_of_Go_int 0) = Finite 1"
    and base: "- (2 ^ 53) \<le> sint ?B" "sint ?B \<le> 2 ^ 53"
    by (simp_all add: float64_of_Go_int_0)
  have prod: "real_of_int (sint ?B) * 1 = real_of_int (sint ?B)" "\<bar>sint ?B\<bar> \<le> 2 ^ 53"
    using base by simp_all
  have "ExponentialBackoff_Next math_Pow e 0 u =
           Some (if 0 <s ExponentialBackoff.Max e \<and> sint (ExponentialBackoff.Max e) < sint ?B
                 then ExponentialBackoff.Max e else word_of_int (sint ?B))"
    using off pow base prod by (rule exponential_exact)
  then show "ExponentialBackoff_Next math_Pow e 0 u =
        Some (if 0 <s ExponentialBackoff.Max e
                   \<and> ExponentialBackoff.Max e <s ExponentialBackoff.Base e
              then ExponentialBackoff.Max e else ExponentialBackoff.Base e)"
    by (simp add: word_sless_alt)
qed

theorem C5_witness:
  "FixedBackoff_Next constant_second 3 (Finite 0) = Some 1000000000
   \<and> LinearBackoff_Next plain_linear 3 (Finite 0) = Some 4000000000
   \<and> (\<exists>r. LinearBackoff_Next plain_linear 3 (Finite 0) = Some r
          \<and> sint r = min 4000000000 10000000000)
   \<and> (\<exists>r. ExponentialBackoff_Next (Pow_returning (Finite 8)) doubling 3 (Finite 0) = Some r
          \<and> sint r = min 8000000000 30000000000)
   \<and> (\<exists>r P. ExponentialBackoff_Next (Pow_returning (Finite 8)) doubling 3 (Finite 0) = Some r
          \<and> \<bar>P - real_of_int (sint (ExponentialBackoff.Base doubling)) * 8\<bar>
               \<le> 2 powi (- 53) * \<bar>real_of_int (sint (ExponentialBackoff.Base doubling)) * 8\<bar>
                   + 2 powi (- 1075)
          \<and> sint r = trunc_toward_zero
                 (min P (real_of_int (sint (ExponentialBackoff.Max doubling)))))
   \<and> ExponentialBackoff_Next (Pow_returning (Finite 8)) doubling 3 (Finite 0) = Some 8000000000
   \<and> ExponentialBackoff_Next (Pow_returning (Finite 1)) doubling 0 (Finite 0) = Some 1000000000"
proof -
  have f: "f64_le (FixedBackoff.Jitter constant_second) (Finite 0)
        \<or> f64_le (Finite 1) (FixedBackoff.Jitter constant_second)"
    by (simp add: constant_second_def)
  have l: "(f64_le (LinearBackoff.Jitter plain_linear) (Finite 0)
          \<or> f64_le (Finite 1) (LinearBackoff.Jitter plain_linear))
        \<and> 0 <s LinearBackoff.Max plain_linear"
    by (simp add: plain_linear_def word_sless_alt)
  have r: "(f64_le (LinearBackoff.Jitter plain_linear) (Finite 0)
          \<or> f64_le (Finite 1) (LinearBackoff.Jitter plain_linear))
        \<and> 0 <s LinearBackoff.Max plain_linear
        \<and> - (2 ^ 63) \<le> sint (LinearBackoff.Base plain_linear) + sint (3 :: Go_int) * sint (Step plain_linear)
        \<and> sint (LinearBackoff.Base plain_linear) + sint (3 :: Go_int) * sint (Step plain_linear) < 2 ^ 63"
    by (simp add: plain_linear_def word_sless_alt)
  have e: "(f64_le (ExponentialBackoff.Jitter doubling) (Finite 0)
          \<or> f64_le (Finite 1) (ExponentialBackoff.Jitter doubling))
        \<and> 0 <s ExponentialBackoff.Max doubling
        \<and> Pow_returning (Finite 8) (Factor doubling) (float64_of_Go_int 3) = Finite 8
        \<and> - (2 ^ 53) \<le> sint (ExponentialBackoff.Base doubling)
        \<and> sint (ExponentialBackoff.Base doubling) \<le> 2 ^ 53
        \<and> real_of_int (sint (ExponentialBackoff.Base doubling)) * 8 = real_of_int 8000000000
        \<and> \<bar>8000000000 :: int\<bar> \<le> 2 ^ 53"
    by (simp add: doubling_def word_sless_alt Pow_returning_def del: of_int_sint)
  have g: "(f64_le (ExponentialBackoff.Jitter doubling) (Finite 0)
          \<or> f64_le (Finite 1) (ExponentialBackoff.Jitter doubling))
        \<and> 0 <s ExponentialBackoff.Max doubling \<and> sint (ExponentialBackoff.Max doubling) \<le> 2 ^ 53
        \<and> Pow_returning (Finite 8) (Factor doubling) (float64_of_Go_int 3) = Finite 8
        \<and> - (2 ^ 53) \<le> sint (ExponentialBackoff.Base doubling)
        \<and> sint (ExponentialBackoff.Base doubling) \<le> 2 ^ 53
        \<and> \<bar>real_of_int (sint (ExponentialBackoff.Base doubling)) * 8\<bar> \<le> 2 ^ 62"
    by (simp add: doubling_def word_sless_alt Pow_returning_def del: of_int_sint)
  have z: "(f64_le (ExponentialBackoff.Jitter doubling) (Finite 0)
          \<or> f64_le (Finite 1) (ExponentialBackoff.Jitter doubling))
        \<and> Pow_returning (Finite 1) (Factor doubling) (Finite 0) = Finite 1
        \<and> - (2 ^ 53) \<le> sint (ExponentialBackoff.Base doubling)
        \<and> sint (ExponentialBackoff.Base doubling) \<le> 2 ^ 53"
    by (simp add: doubling_def Pow_returning_def)
  have v: "ExponentialBackoff_Next (Pow_returning (Finite 8)) doubling 3 (Finite 0)
      = Some 8000000000"
    by (simp add: doubling_def ExponentialBackoff_Next_def Pow_returning_def addJitter_def
        float_eval word_sless_alt)
  note C5 = C5_delay_formulas [of constant_second 3 "Finite 0" plain_linear doubling
      "Pow_returning (Finite 8)" 8 8000000000]
  note C5' = C5_delay_formulas [of constant_second 3 "Finite 0" plain_linear doubling
      "Pow_returning (Finite 1)" 8 8000000000]
  from C5 f have 1: "FixedBackoff_Next constant_second 3 (Finite 0) = Some 1000000000"
    by (simp add: constant_second_def)
  from C5 l have 2: "LinearBackoff_Next plain_linear 3 (Finite 0) = Some 4000000000"
    by (simp add: plain_linear_def word_sless_alt)
  from C5 r
  have 3: "\<exists>r. LinearBackoff_Next plain_linear 3 (Finite 0) = Some r
      \<and> sint r = min 4000000000 10000000000"
    by (simp add: plain_linear_def)
  from C5 e
  have 4: "\<exists>r. ExponentialBackoff_Next (Pow_returning (Finite 8)) doubling 3 (Finite 0) = Some r
      \<and> sint r = min 8000000000 30000000000"
    by (simp add: doubling_def)
  from C5 g
  have 5: "\<exists>r P. ExponentialBackoff_Next (Pow_returning (Finite 8)) doubling 3 (Finite 0) = Some r
          \<and> \<bar>P - real_of_int (sint (ExponentialBackoff.Base doubling)) * 8\<bar>
               \<le> 2 powi (- 53) * \<bar>real_of_int (sint (ExponentialBackoff.Base doubling)) * 8\<bar>
                   + 2 powi (- 1075)
          \<and> sint r = trunc_toward_zero
                 (min P (real_of_int (sint (ExponentialBackoff.Max doubling))))"
    by blast
  from C5' z
  have 6: "ExponentialBackoff_Next (Pow_returning (Finite 1)) doubling 0 (Finite 0)
      = Some 1000000000"
    by (simp add: doubling_def word_sless_alt)
  from 1 2 3 4 5 6 v show ?thesis by blast
qed

end
